theory Spec2Isabelle
  imports Main
begin

section \<open>The runtime borrow checker of ownership.h\<close>

text \<open>
  The header defines three class templates: \<open>Unique<T>\<close> (the owner of a heap object),
  \<open>Borrowed<T>\<close> (a shared borrow handle) and \<open>BorrowedMut<T>\<close> (an exclusive borrow
  handle), and the exception class \<open>BorrowError\<close> with its \<open>ErrorCode\<close>.

  The embedding follows the C++ text method by method.
  \<^item> A pointer is \<open>addr option\<close>; \<open>None\<close> is \<open>nullptr\<close>.
  \<^item> Objects live in a \<open>memory\<close>: one partial map per class from the address of an
    object to its fields, and the set of live \<open>T\<close> allocations. Handles hold raw
    pointers to their owner, so a call through a handle looks the owner up in the memory.
  \<^item> A call has one of four outcomes (\<open>result\<close>): it returns a value and a state; it
    throws a \<open>BorrowError\<close> with a code, and the state is the one at the \<open>throw\<close>
    statement; it ends in \<open>std::terminate\<close> (an exception leaving a function that is
    \<open>noexcept\<close>); or its behaviour is undefined in C++ (a call through a null or dangling
    pointer, \<open>delete\<close> of a pointer that is not a live allocation, overflow of the
    \<open>int\<close> counter).
  \<^item> \<open>int\<close> is taken as 32 bits wide. The counter is an \<open>int\<close> of HOL holding the
    mathematical value; \<open>++\<close> and \<open>--\<close> are undefined when the result is not
    representable.
\<close>

subsection \<open>BorrowError::ErrorCode\<close>

datatype ErrorCode =
    DestroyWithActiveBorrows
  | MoveWithActiveBorrows
  | MoveIntoWithActiveBorrows
  | MoveFromWithActiveBorrows
  | MutableBorrowOfImmutablyBorrowed
  | MutableBorrowOfMutablyBorrowed
  | ImmutableBorrowOfMutablyBorrowed
  | AccessWhileBorrowed
  | AccessWhileMutablyBorrowed
  | ReleaseNonExistentImmutableBorrow
  | ReleaseNonExistentMutableBorrow

subsection \<open>Outcomes of a call\<close>

datatype ('v, 's) result =
    Returned 'v 's
  | Thrown ErrorCode 's
  | Terminated
  | Undefined

text \<open>Sequencing: the second call runs only when the first one returned.\<close>

definition bind_result :: "('v, 's) result \<Rightarrow> ('v \<Rightarrow> 's \<Rightarrow> ('w, 's) result) \<Rightarrow> ('w, 's) result" where
  "bind_result r f =
     (case r of
        Returned v s \<Rightarrow> f v s
      | Thrown e s \<Rightarrow> Thrown e s
      | Terminated \<Rightarrow> Terminated
      | Undefined \<Rightarrow> Undefined)"

text \<open>A \<open>noexcept\<close> function: an exception that would leave it calls \<open>std::terminate\<close>.\<close>

definition noexcept :: "('v, 's) result \<Rightarrow> ('v, 's) result" where
  "noexcept r = (case r of Thrown e s \<Rightarrow> Terminated | _ \<Rightarrow> r)"

subsection \<open>The int counter\<close>

definition INT_MAX :: int where
  "INT_MAX = 2147483647"

definition INT_MIN :: int where
  "INT_MIN = - 2147483648"

text \<open>\<open>x++\<close> and \<open>x--\<close> on an \<open>int\<close>: \<open>None\<close> when the result is not representable.\<close>

definition increment :: "int \<Rightarrow> int option" where
  "increment x = (if x + 1 \<le> INT_MAX then Some (x + 1) else None)"

definition decrement :: "int \<Rightarrow> int option" where
  "decrement x = (if INT_MIN \<le> x - 1 then Some (x - 1) else None)"

text \<open>
  Two's complement: the value \<open>x++\<close> leaves in a 32-bit \<open>int\<close> where the overflow wraps
  around, as in a build that does not trap it. It is the value of \<open>increment\<close> wherever
  that is defined.
\<close>

definition wrapped_increment :: "int \<Rightarrow> int" where
  "wrapped_increment x = (x + 1 + 2147483648) mod 4294967296 - 2147483648"

subsection \<open>class Unique\<close>

type_synonym addr = nat
type_synonym ptr = "addr option"

record Unique =
  data :: ptr
  immutable_borrows :: int
  mutable_borrowed :: bool

text \<open>The borrow tracking methods. They touch the fields of \<open>this\<close> only.\<close>

definition acquireImmutableBorrow :: "Unique \<Rightarrow> (unit, Unique) result" where
  "acquireImmutableBorrow u =
     (if mutable_borrowed u then Thrown MutableBorrowOfMutablyBorrowed u
      else (case increment (immutable_borrows u) of
              None \<Rightarrow> Undefined
            | Some n \<Rightarrow> Returned () (u\<lparr>immutable_borrows := n\<rparr>)))"

definition releaseBorrowImmutable :: "Unique \<Rightarrow> (unit, Unique) result" where
  "releaseBorrowImmutable u =
     (if immutable_borrows u \<le> 0 then Thrown ReleaseNonExistentImmutableBorrow u
      else (case decrement (immutable_borrows u) of
              None \<Rightarrow> Undefined
            | Some n \<Rightarrow> Returned () (u\<lparr>immutable_borrows := n\<rparr>)))"

definition acquireMutableBorrow :: "Unique \<Rightarrow> (unit, Unique) result" where
  "acquireMutableBorrow u =
     (if immutable_borrows u > 0 \<or> mutable_borrowed u
      then Thrown MutableBorrowOfImmutablyBorrowed u
      else Returned () (u\<lparr>mutable_borrowed := True\<rparr>))"

definition releaseMutableBorrow :: "Unique \<Rightarrow> (unit, Unique) result" where
  "releaseMutableBorrow u =
     (if \<not> mutable_borrowed u then Thrown ReleaseNonExistentMutableBorrow u
      else Returned () (u\<lparr>mutable_borrowed := False\<rparr>))"

text \<open>
  The accessors. \<open>operator->\<close> and \<open>get\<close> return the pointer; \<open>operator*\<close> returns
  \<open>*data\<close>, which is defined only when \<open>data\<close> points to a live object (the set
  \<open>live\<close>). None of them changes the owner.
\<close>

definition indirection :: "addr set \<Rightarrow> ptr \<Rightarrow> addr option" where
  "indirection live p =
     (case p of None \<Rightarrow> None | Some x \<Rightarrow> if x \<in> live then Some x else None)"

definition operator_arrow :: "Unique \<Rightarrow> (ptr, Unique) result" where
  "operator_arrow u =
     (if immutable_borrows u > 0 \<or> mutable_borrowed u then Thrown AccessWhileBorrowed u
      else Returned (data u) u)"

definition operator_arrow_const :: "Unique \<Rightarrow> (ptr, Unique) result" where
  "operator_arrow_const u =
     (if mutable_borrowed u then Thrown AccessWhileMutablyBorrowed u
      else Returned (data u) u)"

definition operator_star :: "addr set \<Rightarrow> Unique \<Rightarrow> (addr, Unique) result" where
  "operator_star live u =
     (if immutable_borrows u > 0 \<or> mutable_borrowed u then Thrown AccessWhileBorrowed u
      else (case indirection live (data u) of
              None \<Rightarrow> Undefined
            | Some x \<Rightarrow> Returned x u))"

definition operator_star_const :: "addr set \<Rightarrow> Unique \<Rightarrow> (addr, Unique) result" where
  "operator_star_const live u =
     (if mutable_borrowed u then Thrown AccessWhileMutablyBorrowed u
      else (case indirection live (data u) of
              None \<Rightarrow> Undefined
            | Some x \<Rightarrow> Returned x u))"

definition get :: "Unique \<Rightarrow> (ptr, Unique) result" where
  "get u =
     (if immutable_borrows u > 0 \<or> mutable_borrowed u then Thrown AccessWhileBorrowed u
      else Returned (data u) u)"

definition get_const :: "Unique \<Rightarrow> (ptr, Unique) result" where
  "get_const u =
     (if mutable_borrowed u then Thrown AccessWhileMutablyBorrowed u
      else Returned (data u) u)"

definition operator_bool :: "Unique \<Rightarrow> bool" where
  "operator_bool u = (data u \<noteq> None)"

subsection \<open>The memory\<close>

text \<open>
  \<open>Borrowed\<close> and \<open>BorrowedMut\<close> both have the fields \<open>owner_\<close> and \<open>data\<close>; the
  records prefix them with \<open>b_\<close> and \<open>bm_\<close>.
\<close>

record Borrowed =
  b_owner :: ptr
  b_data :: ptr

record BorrowedMut =
  bm_owner :: ptr
  bm_data :: ptr

record memory =
  uniques :: "addr \<rightharpoonup> Unique"
  borroweds :: "addr \<rightharpoonup> Borrowed"
  borrowedmuts :: "addr \<rightharpoonup> BorrowedMut"
  allocated :: "addr set"

text \<open>
  \<open>owner->method()\<close>: the call is undefined when the pointer is null or no live
  \<open>Unique\<close> is at that address; otherwise the method runs on that object and the object
  is written back, also when the method throws.
\<close>

definition via_owner :: "(Unique \<Rightarrow> ('v, Unique) result) \<Rightarrow> ptr \<Rightarrow> memory \<Rightarrow> ('v, memory) result" where
  "via_owner f p m =
     (case p of
        None \<Rightarrow> Undefined
      | Some a \<Rightarrow>
          (case uniques m a of
             None \<Rightarrow> Undefined
           | Some u \<Rightarrow>
               (case f u of
                  Returned v u' \<Rightarrow> Returned v (m\<lparr>uniques := (uniques m)(a \<mapsto> u')\<rparr>)
                | Thrown e u' \<Rightarrow> Thrown e (m\<lparr>uniques := (uniques m)(a \<mapsto> u')\<rparr>)
                | Terminated \<Rightarrow> Terminated
                | Undefined \<Rightarrow> Undefined)))"

text \<open>\<open>delete p\<close>: nothing for a null pointer, undefined unless \<open>p\<close> is a live allocation.\<close>

definition delete :: "ptr \<Rightarrow> addr set \<Rightarrow> addr set option" where
  "delete p live =
     (case p of
        None \<Rightarrow> Some live
      | Some x \<Rightarrow> if x \<in> live then Some (live - {x}) else None)"

subsection \<open>Unique: constructor, destructor, move\<close>

text \<open>
  \<open>Unique(T *ptr) : data(ptr) {}\<close> at address \<open>a\<close>. The storage of a new object holds no
  live object; a call that names occupied storage is outside the model.
\<close>

definition Unique_ctor :: "addr \<Rightarrow> ptr \<Rightarrow> memory \<Rightarrow> (unit, memory) result" where
  "Unique_ctor a p m =
     (if a \<in> dom (uniques m) then Undefined
      else Returned ()
             (m\<lparr>uniques := (uniques m)
                   (a \<mapsto> \<lparr>data = p, immutable_borrows = 0, mutable_borrowed = False\<rparr>)\<rparr>))"

text \<open>
  \<open>~Unique() noexcept(false)\<close> of the object at \<open>a\<close>. When it throws, the state is the
  one at the \<open>throw\<close>: nothing was deleted and the fields are as they were.
\<close>

definition Unique_dtor :: "addr \<Rightarrow> memory \<Rightarrow> (unit, memory) result" where
  "Unique_dtor a m =
     (case uniques m a of
        None \<Rightarrow> Undefined
      | Some u \<Rightarrow>
          if immutable_borrows u > 0 \<or> mutable_borrowed u
          then Thrown DestroyWithActiveBorrows m
          else (case delete (data u) (allocated m) of
                  None \<Rightarrow> Undefined
                | Some live \<Rightarrow>
                    Returned () (m\<lparr>uniques := (uniques m)(a := None), allocated := live\<rparr>)))"

text \<open>
  \<open>Unique(Unique &&other) noexcept(false)\<close>: a new object at \<open>a\<close> from the one at \<open>b\<close>.
  The member initialisers copy the three fields of \<open>other\<close>, then the body tests the
  copies. When it throws, no object comes to life at \<open>a\<close> and \<open>other\<close> is untouched.
\<close>

definition Unique_move_ctor :: "addr \<Rightarrow> addr \<Rightarrow> memory \<Rightarrow> (unit, memory) result" where
  "Unique_move_ctor a b m =
     (case uniques m b of
        None \<Rightarrow> Undefined
      | Some other \<Rightarrow>
          if a \<in> dom (uniques m) then Undefined
          else
            (let this = \<lparr>data = data other,
                         immutable_borrows = immutable_borrows other,
                         mutable_borrowed = mutable_borrowed other\<rparr>
             in if immutable_borrows this > 0 \<or> mutable_borrowed this
                then Thrown MoveWithActiveBorrows m
                else Returned ()
                       (m\<lparr>uniques := (uniques m)
                             (b \<mapsto> other\<lparr>data := None, immutable_borrows := 0,
                                          mutable_borrowed := False\<rparr>,
                              a \<mapsto> this)\<rparr>)))"

text \<open>
  \<open>Unique &operator=(Unique &&other) noexcept(false)\<close>: \<open>this\<close> is the object at \<open>a\<close>,
  \<open>other\<close> the one at \<open>b\<close>.
\<close>

definition Unique_move_assign :: "addr \<Rightarrow> addr \<Rightarrow> memory \<Rightarrow> (unit, memory) result" where
  "Unique_move_assign a b m =
     (case uniques m a of
        None \<Rightarrow> Undefined
      | Some this \<Rightarrow>
          (case uniques m b of
             None \<Rightarrow> Undefined
           | Some other \<Rightarrow>
               if a \<noteq> b then
                 if immutable_borrows this > 0 \<or> mutable_borrowed this
                 then Thrown MoveIntoWithActiveBorrows m
                 else if immutable_borrows other > 0 \<or> mutable_borrowed other
                 then Thrown MoveFromWithActiveBorrows m
                 else (case delete (data this) (allocated m) of
                         None \<Rightarrow> Undefined
                       | Some live \<Rightarrow>
                           Returned ()
                             (m\<lparr>uniques := (uniques m)
                                   (a \<mapsto> this\<lparr>data := data other,
                                              immutable_borrows := immutable_borrows other,
                                              mutable_borrowed := mutable_borrowed other\<rparr>,
                                    b \<mapsto> other\<lparr>data := None, immutable_borrows := 0,
                                               mutable_borrowed := False\<rparr>),
                                allocated := live\<rparr>))
               else Returned () m))"

subsection \<open>class Borrowed\<close>

text \<open>
  \<open>explicit Borrowed(const Unique<T> *owner, const T *ptr)\<close>, constructing the handle at
  \<open>h\<close>. When the acquisition throws, no handle comes to life.
\<close>

definition Borrowed_ctor :: "addr \<Rightarrow> ptr \<Rightarrow> ptr \<Rightarrow> memory \<Rightarrow> (unit, memory) result" where
  "Borrowed_ctor h owner p m =
     (if h \<in> dom (borroweds m) then Undefined
      else bind_result (via_owner acquireImmutableBorrow owner m)
             (\<lambda>_ m'. Returned ()
                (m'\<lparr>borroweds := (borroweds m')(h \<mapsto> \<lparr>b_owner = owner, b_data = p\<rparr>)\<rparr>)))"

text \<open>\<open>Borrowed(const Borrowed &other)\<close>: a new handle at \<open>h\<close> from the one at \<open>g\<close>.\<close>

definition Borrowed_copy_ctor :: "addr \<Rightarrow> addr \<Rightarrow> memory \<Rightarrow> (unit, memory) result" where
  "Borrowed_copy_ctor h g m =
     (case borroweds m g of
        None \<Rightarrow> Undefined
      | Some other \<Rightarrow> Borrowed_ctor h (b_owner other) (b_data other) m)"

text \<open>
  \<open>Borrowed &operator=(const Borrowed &other)\<close>: \<open>this\<close> is the handle at \<open>h\<close>,
  \<open>other\<close> the one at \<open>g\<close>. The release on the old owner does not touch the handles, so
  the fields of \<open>other\<close> read after it are those of the memory before the call.
\<close>

definition Borrowed_assign :: "addr \<Rightarrow> addr \<Rightarrow> memory \<Rightarrow> (unit, memory) result" where
  "Borrowed_assign h g m =
     (case borroweds m h of
        None \<Rightarrow> Undefined
      | Some this \<Rightarrow>
          (case borroweds m g of
             None \<Rightarrow> Undefined
           | Some other \<Rightarrow>
               if h \<noteq> g then
                 bind_result (via_owner releaseBorrowImmutable (b_owner this) m)
                   (\<lambda>_ m1.
                      via_owner acquireImmutableBorrow (b_owner other)
                        (m1\<lparr>borroweds := (borroweds m1)
                              (h \<mapsto> \<lparr>b_owner = b_owner other, b_data = b_data other\<rparr>)\<rparr>))
               else Returned () m))"

text \<open>
  \<open>~Borrowed()\<close>. The destructor has no exception specification, so it is \<open>noexcept\<close>:
  a throwing release ends in \<open>std::terminate\<close>.
\<close>

definition Borrowed_dtor :: "addr \<Rightarrow> memory \<Rightarrow> (unit, memory) result" where
  "Borrowed_dtor h m =
     (case borroweds m h of
        None \<Rightarrow> Undefined
      | Some this \<Rightarrow>
          noexcept
            (bind_result (via_owner releaseBorrowImmutable (b_owner this) m)
               (\<lambda>_ m1. Returned () (m1\<lparr>borroweds := (borroweds m1)(h := None)\<rparr>))))"

text \<open>The accessors of a handle check nothing.\<close>

definition Borrowed_get :: "Borrowed \<Rightarrow> ptr" where
  "Borrowed_get b = b_data b"

definition Borrowed_operator_arrow :: "Borrowed \<Rightarrow> ptr" where
  "Borrowed_operator_arrow b = b_data b"

definition Borrowed_operator_star :: "addr set \<Rightarrow> Borrowed \<Rightarrow> addr option" where
  "Borrowed_operator_star live b = indirection live (b_data b)"

definition Borrowed_operator_bool :: "Borrowed \<Rightarrow> bool" where
  "Borrowed_operator_bool b = (b_data b \<noteq> None)"

text \<open>\<open>Borrowed<T> borrow() const { return Borrowed<T>(this, data); }\<close> on the owner at \<open>a\<close>.\<close>

definition borrow :: "addr \<Rightarrow> addr \<Rightarrow> memory \<Rightarrow> (unit, memory) result" where
  "borrow a h m =
     (case uniques m a of
        None \<Rightarrow> Undefined
      | Some u \<Rightarrow> Borrowed_ctor h (Some a) (data u) m)"

subsection \<open>class BorrowedMut\<close>

definition BorrowedMut_ctor :: "addr \<Rightarrow> ptr \<Rightarrow> ptr \<Rightarrow> memory \<Rightarrow> (unit, memory) result" where
  "BorrowedMut_ctor h owner p m =
     (if h \<in> dom (borrowedmuts m) then Undefined
      else bind_result (via_owner acquireMutableBorrow owner m)
             (\<lambda>_ m'. Returned ()
                (m'\<lparr>borrowedmuts := (borrowedmuts m')(h \<mapsto> \<lparr>bm_owner = owner, bm_data = p\<rparr>)\<rparr>)))"

text \<open>\<open>BorrowedMut(BorrowedMut &&other) noexcept\<close>: a new handle at \<open>h\<close> from the one at \<open>g\<close>.\<close>

definition BorrowedMut_move_ctor :: "addr \<Rightarrow> addr \<Rightarrow> memory \<Rightarrow> (unit, memory) result" where
  "BorrowedMut_move_ctor h g m =
     (case borrowedmuts m g of
        None \<Rightarrow> Undefined
      | Some other \<Rightarrow>
          if h \<in> dom (borrowedmuts m) then Undefined
          else Returned ()
                 (m\<lparr>borrowedmuts := (borrowedmuts m)
                       (h \<mapsto> \<lparr>bm_owner = bm_owner other, bm_data = bm_data other\<rparr>,
                        g \<mapsto> \<lparr>bm_owner = None, bm_data = None\<rparr>)\<rparr>))"

text \<open>\<open>if (owner_) owner_->releaseMutableBorrow();\<close>\<close>

definition release_if_owner :: "BorrowedMut \<Rightarrow> memory \<Rightarrow> (unit, memory) result" where
  "release_if_owner this m =
     (if bm_owner this \<noteq> None then via_owner releaseMutableBorrow (bm_owner this) m
      else Returned () m)"

text \<open>
  \<open>BorrowedMut &operator=(BorrowedMut &&other) noexcept\<close>: \<open>this\<close> is the handle at
  \<open>h\<close>, \<open>other\<close> the one at \<open>g\<close>.
\<close>

definition BorrowedMut_move_assign :: "addr \<Rightarrow> addr \<Rightarrow> memory \<Rightarrow> (unit, memory) result" where
  "BorrowedMut_move_assign h g m =
     (case borrowedmuts m h of
        None \<Rightarrow> Undefined
      | Some this \<Rightarrow>
          (case borrowedmuts m g of
             None \<Rightarrow> Undefined
           | Some other \<Rightarrow>
               if h \<noteq> g then
                 noexcept
                   (bind_result (release_if_owner this m)
                      (\<lambda>_ m1. Returned ()
                         (m1\<lparr>borrowedmuts := (borrowedmuts m1)
                               (h \<mapsto> \<lparr>bm_owner = bm_owner other, bm_data = bm_data other\<rparr>,
                                g \<mapsto> \<lparr>bm_owner = None, bm_data = None\<rparr>)\<rparr>)))
               else Returned () m))"

text \<open>\<open>~BorrowedMut()\<close>, \<open>noexcept\<close> like \<open>~Borrowed()\<close>.\<close>

definition BorrowedMut_dtor :: "addr \<Rightarrow> memory \<Rightarrow> (unit, memory) result" where
  "BorrowedMut_dtor h m =
     (case borrowedmuts m h of
        None \<Rightarrow> Undefined
      | Some this \<Rightarrow>
          noexcept
            (bind_result (release_if_owner this m)
               (\<lambda>_ m1. Returned () (m1\<lparr>borrowedmuts := (borrowedmuts m1)(h := None)\<rparr>))))"

definition BorrowedMut_get :: "BorrowedMut \<Rightarrow> ptr" where
  "BorrowedMut_get b = bm_data b"

text \<open>\<open>BorrowedMut<T> borrow_mut() { return BorrowedMut<T>(this, data); }\<close>\<close>

definition borrow_mut :: "addr \<Rightarrow> addr \<Rightarrow> memory \<Rightarrow> (unit, memory) result" where
  "borrow_mut a h m =
     (case uniques m a of
        None \<Rightarrow> Undefined
      | Some u \<Rightarrow> BorrowedMut_ctor h (Some a) (data u) m)"

subsection \<open>Programs over the memory\<close>

text \<open>
  A client program is a list of calls on the objects of the memory. A call that throws is
  caught by the client, which goes on from the state at the \<open>throw\<close>; after
  \<open>std::terminate\<close> or undefined behaviour there is no state to go on from.
\<close>

text \<open>A call whose value the program does not use.\<close>

definition discard :: "('v, 's) result \<Rightarrow> (unit, 's) result" where
  "discard r =
     (case r of
        Returned v s \<Rightarrow> Returned () s
      | Thrown e s \<Rightarrow> Thrown e s
      | Terminated \<Rightarrow> Terminated
      | Undefined \<Rightarrow> Undefined)"

text \<open>
  The calls: the constructor, destructor, move constructor and move assignment of
  \<open>Unique\<close> and its public methods on the owner at an address, and the constructors,
  assignments and destructors of the two handle classes on the handles at an address.
\<close>

datatype operation =
    Construct addr ptr
  | Destroy addr
  | MoveConstruct addr addr
  | MoveAssign addr addr
  | AcquireImmutable addr
  | ReleaseImmutable addr
  | AcquireMutable addr
  | ReleaseMutable addr
  | Arrow addr
  | ArrowConst addr
  | Star addr
  | StarConst addr
  | Get addr
  | GetConst addr
  | Borrow addr addr
  | BorrowMut addr addr
  | CopyBorrowed addr addr
  | AssignBorrowed addr addr
  | DropBorrowed addr
  | MoveBorrowedMut addr addr
  | AssignBorrowedMut addr addr
  | DropBorrowedMut addr

fun exec :: "operation \<Rightarrow> memory \<Rightarrow> (unit, memory) result" where
  "exec (Construct a p) m = Unique_ctor a p m"
| "exec (Destroy a) m = Unique_dtor a m"
| "exec (MoveConstruct a b) m = Unique_move_ctor a b m"
| "exec (MoveAssign a b) m = Unique_move_assign a b m"
| "exec (AcquireImmutable a) m = via_owner acquireImmutableBorrow (Some a) m"
| "exec (ReleaseImmutable a) m = via_owner releaseBorrowImmutable (Some a) m"
| "exec (AcquireMutable a) m = via_owner acquireMutableBorrow (Some a) m"
| "exec (ReleaseMutable a) m = via_owner releaseMutableBorrow (Some a) m"
| "exec (Arrow a) m = discard (via_owner operator_arrow (Some a) m)"
| "exec (ArrowConst a) m = discard (via_owner operator_arrow_const (Some a) m)"
| "exec (Star a) m = discard (via_owner (operator_star (allocated m)) (Some a) m)"
| "exec (StarConst a) m = discard (via_owner (operator_star_const (allocated m)) (Some a) m)"
| "exec (Get a) m = discard (via_owner get (Some a) m)"
| "exec (GetConst a) m = discard (via_owner get_const (Some a) m)"
| "exec (Borrow a h) m = borrow a h m"
| "exec (BorrowMut a h) m = borrow_mut a h m"
| "exec (CopyBorrowed h g) m = Borrowed_copy_ctor h g m"
| "exec (AssignBorrowed h g) m = Borrowed_assign h g m"
| "exec (DropBorrowed h) m = Borrowed_dtor h m"
| "exec (MoveBorrowedMut h g) m = BorrowedMut_move_ctor h g m"
| "exec (AssignBorrowedMut h g) m = BorrowedMut_move_assign h g m"
| "exec (DropBorrowedMut h) m = BorrowedMut_dtor h m"

text \<open>
  The calls on the owner at \<open>a\<close> that need nothing but a live owner: the four borrow
  tracking methods and the accessors that return the pointer.
\<close>

fun tracking_call :: "addr \<Rightarrow> operation \<Rightarrow> bool" where
  "tracking_call a (AcquireImmutable b) = (a = b)"
| "tracking_call a (ReleaseImmutable b) = (a = b)"
| "tracking_call a (AcquireMutable b) = (a = b)"
| "tracking_call a (ReleaseMutable b) = (a = b)"
| "tracking_call a (Arrow b) = (a = b)"
| "tracking_call a (ArrowConst b) = (a = b)"
| "tracking_call a (Get b) = (a = b)"
| "tracking_call a (GetConst b) = (a = b)"
| "tracking_call a _ = False"

text \<open>The state a client can go on from: the one of a return or of a throw.\<close>

definition state_after :: "('v, 's) result \<Rightarrow> 's option" where
  "state_after r =
     (case r of
        Returned v s \<Rightarrow> Some s
      | Thrown e s \<Rightarrow> Some s
      | Terminated \<Rightarrow> None
      | Undefined \<Rightarrow> None)"

fun run :: "operation list \<Rightarrow> memory \<Rightarrow> memory option" where
  "run [] m = Some m"
| "run (x # xs) m =
     (case state_after (exec x m) of
        None \<Rightarrow> None
      | Some m' \<Rightarrow> run xs m')"

text \<open>
  The invariant of the borrow state of one owner, and of all the owners of a memory.
\<close>

definition borrow_inv :: "Unique \<Rightarrow> bool" where
  "borrow_inv u = (\<not> (mutable_borrowed u \<and> immutable_borrows u > 0) \<and> immutable_borrows u \<ge> 0)"

definition memory_inv :: "memory \<Rightarrow> bool" where
  "memory_inv m = (\<forall>a u. uniques m a = Some u \<longrightarrow> borrow_inv u)"

text \<open>A method preserves the invariant whether it returns or throws.\<close>

definition preserves :: "(Unique \<Rightarrow> ('v, Unique) result) \<Rightarrow> bool" where
  "preserves f = (\<forall>u u'. borrow_inv u \<and> state_after (f u) = Some u' \<longrightarrow> borrow_inv u')"

text \<open>The code of the exception a call throws, if it throws.\<close>

definition thrown_code :: "('v, 's) result \<Rightarrow> ErrorCode option" where
  "thrown_code r = (case r of Thrown e s \<Rightarrow> Some e | _ \<Rightarrow> None)"

text \<open>A call that throws leaves the state it was given.\<close>

definition failure_is_noop :: "('s \<Rightarrow> ('v, 's) result) \<Rightarrow> bool" where
  "failure_is_noop f = (\<forall>s e s'. f s = Thrown e s' \<longrightarrow> s' = s)"

section \<open>Properties\<close>

subsection \<open>Every call preserves the invariant\<close>

lemma preserves_methods:
  "preserves acquireImmutableBorrow" "preserves releaseBorrowImmutable"
  "preserves acquireMutableBorrow" "preserves releaseMutableBorrow"
  "preserves operator_arrow" "preserves operator_arrow_const"
  "preserves (operator_star live)" "preserves (operator_star_const live)"
  "preserves get" "preserves get_const"
  by (auto simp: preserves_def state_after_def borrow_inv_def acquireImmutableBorrow_def
      releaseBorrowImmutable_def acquireMutableBorrow_def releaseMutableBorrow_def
      operator_arrow_def operator_arrow_const_def operator_star_def operator_star_const_def
      get_def get_const_def increment_def decrement_def
      split: if_splits option.splits)

lemma via_owner_inv:
  assumes "preserves f" and "memory_inv m" and "state_after (via_owner f p m) = Some m'"
  shows "memory_inv m'"
proof -
  from assms(3) obtain a u u' where p: "p = Some a" and u: "uniques m a = Some u"
    and f: "state_after (f u) = Some u'" and m': "m' = m\<lparr>uniques := (uniques m)(a \<mapsto> u')\<rparr>"
    by (auto simp: via_owner_def state_after_def split: option.splits result.splits)
  from assms(2) u have "borrow_inv u" by (simp add: memory_inv_def)
  with assms(1) f have "borrow_inv u'" by (auto simp: preserves_def)
  with assms(2) show ?thesis by (simp add: m' memory_inv_def)
qed

lemma state_after_discard [simp]: "state_after (discard r) = state_after r"
  by (simp add: state_after_def discard_def split: result.splits)

lemma memory_inv_handles [simp]:
  "memory_inv (m\<lparr>borroweds := x\<rparr>) = memory_inv m"
  "memory_inv (m\<lparr>borrowedmuts := y\<rparr>) = memory_inv m"
  "memory_inv (m\<lparr>allocated := z\<rparr>) = memory_inv m"
  by (simp_all add: memory_inv_def)

lemma Unique_ctor_inv:
  "state_after (Unique_ctor a p m) = Some m' \<Longrightarrow> memory_inv m \<Longrightarrow> memory_inv m'"
  by (auto simp: Unique_ctor_def state_after_def memory_inv_def borrow_inv_def split: if_splits)

lemma Unique_dtor_inv:
  "state_after (Unique_dtor a m) = Some m' \<Longrightarrow> memory_inv m \<Longrightarrow> memory_inv m'"
  by (auto simp: Unique_dtor_def state_after_def memory_inv_def split: if_splits option.splits)

lemma Unique_move_ctor_inv:
  "state_after (Unique_move_ctor a b m) = Some m' \<Longrightarrow> memory_inv m \<Longrightarrow> memory_inv m'"
  by (auto simp: Unique_move_ctor_def state_after_def memory_inv_def borrow_inv_def Let_def
      split: if_splits option.splits)

lemma Unique_move_assign_inv:
  "state_after (Unique_move_assign a b m) = Some m' \<Longrightarrow> memory_inv m \<Longrightarrow> memory_inv m'"
  by (auto simp: Unique_move_assign_def state_after_def memory_inv_def borrow_inv_def
      split: if_splits option.splits)





lemma state_after_Returned [simp]: "state_after (Returned v s) = Some s"
  by (simp add: state_after_def)

lemma state_after_Thrown [simp]: "state_after (Thrown e s) = Some s"
  by (simp add: state_after_def)

lemma state_after_none [simp]: "state_after Terminated = None" "state_after Undefined = None"
  by (simp_all add: state_after_def)

lemma state_after_bind_iff:
  "state_after (bind_result r f) = Some m' \<longleftrightarrow>
     (\<exists>e. r = Thrown e m') \<or> (\<exists>v m1. r = Returned v m1 \<and> state_after (f v m1) = Some m')"
  by (cases r) (simp_all add: bind_result_def)

lemma state_after_noexcept_iff:
  "state_after (noexcept r) = Some m' \<longleftrightarrow> (\<exists>v. r = Returned v m')"
  by (cases r) (simp_all add: noexcept_def)

lemma via_owner_state_inv:
  "state_after (via_owner f p m) = Some m' \<Longrightarrow> preserves f \<Longrightarrow> memory_inv m \<Longrightarrow> memory_inv m'"
  by (rule via_owner_inv)

lemma via_owner_Returned_inv:
  "via_owner f p m = Returned v m' \<Longrightarrow> preserves f \<Longrightarrow> memory_inv m \<Longrightarrow> memory_inv m'"
  by (rule via_owner_inv [where f = f and p = p and m = m]) simp_all

lemma via_owner_Thrown_inv:
  "via_owner f p m = Thrown e m' \<Longrightarrow> preserves f \<Longrightarrow> memory_inv m \<Longrightarrow> memory_inv m'"
  by (rule via_owner_inv [where f = f and p = p and m = m]) simp_all

lemma Borrowed_ctor_inv:
  "state_after (Borrowed_ctor h p q m) = Some m' \<Longrightarrow> memory_inv m \<Longrightarrow> memory_inv m'"
  by (auto simp: Borrowed_ctor_def state_after_bind_iff preserves_methods split: if_splits
        dest!: via_owner_Returned_inv via_owner_Thrown_inv)

lemma BorrowedMut_ctor_inv:
  "state_after (BorrowedMut_ctor h p q m) = Some m' \<Longrightarrow> memory_inv m \<Longrightarrow> memory_inv m'"
  by (auto simp: BorrowedMut_ctor_def state_after_bind_iff preserves_methods split: if_splits
        dest!: via_owner_Returned_inv via_owner_Thrown_inv)


lemma Borrowed_assign_inv:
  "state_after (Borrowed_assign h g m) = Some m' \<Longrightarrow> memory_inv m \<Longrightarrow> memory_inv m'"
  by (auto simp: Borrowed_assign_def state_after_bind_iff preserves_methods
        split: if_splits option.splits
        dest!: via_owner_Returned_inv via_owner_Thrown_inv via_owner_state_inv)

lemma Borrowed_dtor_inv:
  "state_after (Borrowed_dtor h m) = Some m' \<Longrightarrow> memory_inv m \<Longrightarrow> memory_inv m'"
  by (auto simp: Borrowed_dtor_def state_after_noexcept_iff bind_result_def preserves_methods
        split: option.splits result.splits
        dest!: via_owner_Returned_inv)

lemma release_if_owner_inv:
  "release_if_owner this m = Returned v m' \<Longrightarrow> memory_inv m \<Longrightarrow> memory_inv m'"
  by (auto simp: release_if_owner_def preserves_methods split: if_splits
        dest!: via_owner_Returned_inv)

lemma BorrowedMut_move_ctor_inv:
  "state_after (BorrowedMut_move_ctor h g m) = Some m' \<Longrightarrow> memory_inv m \<Longrightarrow> memory_inv m'"
  by (auto simp: BorrowedMut_move_ctor_def split: if_splits option.splits)

lemma BorrowedMut_move_assign_inv:
  "state_after (BorrowedMut_move_assign h g m) = Some m' \<Longrightarrow> memory_inv m \<Longrightarrow> memory_inv m'"
  by (auto simp: BorrowedMut_move_assign_def state_after_noexcept_iff bind_result_def
        split: if_splits option.splits result.splits
        dest!: release_if_owner_inv)

lemma BorrowedMut_dtor_inv:
  "state_after (BorrowedMut_dtor h m) = Some m' \<Longrightarrow> memory_inv m \<Longrightarrow> memory_inv m'"
  by (auto simp: BorrowedMut_dtor_def state_after_noexcept_iff bind_result_def
        split: option.splits result.splits
        dest!: release_if_owner_inv)

lemma exec_inv:
  "state_after (exec x m) = Some m' \<Longrightarrow> memory_inv m \<Longrightarrow> memory_inv m'"
proof (cases x)
  case (Borrow a h)
  then show "state_after (exec x m) = Some m' \<Longrightarrow> memory_inv m \<Longrightarrow> memory_inv m'"
    by (auto simp: borrow_def split: option.splits dest!: Borrowed_ctor_inv)
next
  case (BorrowMut a h)
  then show "state_after (exec x m) = Some m' \<Longrightarrow> memory_inv m \<Longrightarrow> memory_inv m'"
    by (auto simp: borrow_mut_def split: option.splits dest!: BorrowedMut_ctor_inv)
next
  case (CopyBorrowed h g)
  then show "state_after (exec x m) = Some m' \<Longrightarrow> memory_inv m \<Longrightarrow> memory_inv m'"
    by (auto simp: Borrowed_copy_ctor_def split: option.splits dest!: Borrowed_ctor_inv)
qed (auto simp: preserves_methods
       dest!: Unique_ctor_inv Unique_dtor_inv Unique_move_ctor_inv Unique_move_assign_inv
         via_owner_state_inv Borrowed_assign_inv Borrowed_dtor_inv BorrowedMut_move_ctor_inv
         BorrowedMut_move_assign_inv BorrowedMut_dtor_inv)

lemma run_inv:
  "run xs m = Some m' \<Longrightarrow> memory_inv m \<Longrightarrow> memory_inv m'"
proof (induction xs arbitrary: m)
  case Nil
  then show ?case by simp
next
  case (Cons x xs)
  then show ?case by (auto split: option.splits dest!: exec_inv)
qed


subsection \<open>Programs of acquisitions\<close>

lemma increment_agrees:
  "INT_MIN \<le> x \<Longrightarrow> increment x = Some y \<Longrightarrow> wrapped_increment x = y"
  by (auto simp: increment_def wrapped_increment_def INT_MAX_def INT_MIN_def split: if_splits)

lemma run_append:
  "run (xs @ ys) m = (case run xs m of None \<Rightarrow> None | Some m' \<Rightarrow> run ys m')"
  by (induction xs arbitrary: m) (auto split: option.splits)

lemma exec_acquire:
  assumes "uniques m a = Some u" and "\<not> mutable_borrowed u" and "immutable_borrows u < INT_MAX"
  shows "exec (AcquireImmutable a) m
           = Returned () (m\<lparr>uniques := (uniques m)
                (a \<mapsto> u\<lparr>immutable_borrows := immutable_borrows u + 1\<rparr>)\<rparr>)"
  using assms by (simp add: via_owner_def acquireImmutableBorrow_def increment_def)

lemma run_acquires:
  "uniques m a = Some u \<Longrightarrow> \<not> mutable_borrowed u \<Longrightarrow> immutable_borrows u + int n \<le> INT_MAX \<Longrightarrow>
     run (replicate n (AcquireImmutable a)) m
       = Some (m\<lparr>uniques := (uniques m)
            (a \<mapsto> u\<lparr>immutable_borrows := immutable_borrows u + int n\<rparr>)\<rparr>)"
proof (induction n arbitrary: m u)
  case 0
  then show ?case by (simp add: map_upd_triv)
next
  case (Suc n)
  let ?u = "u\<lparr>immutable_borrows := immutable_borrows u + 1\<rparr>"
  let ?m = "m\<lparr>uniques := (uniques m)(a \<mapsto> ?u)\<rparr>"
  from Suc.prems have e: "exec (AcquireImmutable a) m = Returned () ?m"
    by (intro exec_acquire) simp_all
  have ih: "run (replicate n (AcquireImmutable a)) ?m
          = Some (?m\<lparr>uniques := (uniques ?m)
               (a \<mapsto> ?u\<lparr>immutable_borrows := immutable_borrows ?u + int n\<rparr>)\<rparr>)"
    using Suc.prems by (intro Suc.IH) simp_all
  have "run (replicate (Suc n) (AcquireImmutable a)) m
          = run (replicate n (AcquireImmutable a)) ?m"
    by (simp only: replicate_Suc run.simps e state_after_Returned option.case)
  also note ih
  also have "?m\<lparr>uniques := (uniques ?m)
               (a \<mapsto> ?u\<lparr>immutable_borrows := immutable_borrows ?u + int n\<rparr>)\<rparr>
          = m\<lparr>uniques := (uniques m)
               (a \<mapsto> u\<lparr>immutable_borrows := immutable_borrows u + int (Suc n)\<rparr>)\<rparr>"
    by (simp add: add.assoc)
  finally show ?case .
qed

lemma tracking_step:
  assumes "tracking_call a x" and "uniques m a = Some u" and "immutable_borrows u < INT_MAX"
  shows "\<exists>m1 u1. state_after (exec x m) = Some m1 \<and> uniques m1 a = Some u1
           \<and> immutable_borrows u1 \<le> immutable_borrows u + 1"
  using assms
  by (cases x)
     (auto simp: via_owner_def acquireImmutableBorrow_def releaseBorrowImmutable_def
        acquireMutableBorrow_def releaseMutableBorrow_def operator_arrow_def
        operator_arrow_const_def get_def get_const_def increment_def decrement_def INT_MIN_def
        discard_def)

lemma tracking_run:
  "uniques m a = Some u \<Longrightarrow> \<forall>x \<in> set xs. tracking_call a x \<Longrightarrow>
   immutable_borrows u + int (length xs) \<le> INT_MAX \<Longrightarrow>
     \<exists>m' u'. run xs m = Some m' \<and> uniques m' a = Some u'"
proof (induction xs arbitrary: m u)
  case Nil
  then show ?case by simp
next
  case (Cons x xs)
  from Cons.prems have "tracking_call a x" and "immutable_borrows u < INT_MAX" by simp_all
  with Cons.prems(1) obtain m1 u1 where s: "state_after (exec x m) = Some m1"
    and u1: "uniques m1 a = Some u1" and le: "immutable_borrows u1 \<le> immutable_borrows u + 1"
    using tracking_step by blast
  from Cons.prems le have "immutable_borrows u1 + int (length xs) \<le> INT_MAX" by simp
  with u1 Cons.prems(2) obtain m' u' where "run xs m1 = Some m'" and "uniques m' a = Some u'"
    using Cons.IH [of m1 u1] by auto
  with s show ?case by simp
qed

subsection \<open>The invariant of the borrow state\<close>

text \<open>
  C1, as the claim states it, fails: it speaks of any sequence of operations, and
  \<open>acquireImmutableBorrow\<close> increments the \<open>int\<close> counter with no test of its range.
  Construct an owner and call \<open>acquireImmutableBorrow\<close> on it 2147483647 times: every
  call returns and the shared count is \<open>INT_MAX\<close>. One more call overflows the counter.
  C++ leaves that call undefined, so the sequence has no state in which the invariant could
  hold; where the overflow wraps around, the count it leaves is -2147483648, a negative
  shared count.
\<close>

theorem shared_count_overflow:
  "run (Construct 1 (Some 10) # replicate 2147483647 (AcquireImmutable 1))
     \<lparr>uniques = Map.empty, borroweds = Map.empty, borrowedmuts = Map.empty, allocated = {10}\<rparr>
   = Some \<lparr>uniques = [1 \<mapsto> \<lparr>data = Some 10, immutable_borrows = 2147483647,
                                mutable_borrowed = False\<rparr>],
           borroweds = Map.empty, borrowedmuts = Map.empty, allocated = {10}\<rparr>
   \<and> exec (AcquireImmutable 1)
       \<lparr>uniques = [1 \<mapsto> \<lparr>data = Some 10, immutable_borrows = 2147483647,
                             mutable_borrowed = False\<rparr>],
        borroweds = Map.empty, borrowedmuts = Map.empty, allocated = {10}\<rparr>
     = Undefined
   \<and> run ((Construct 1 (Some 10) # replicate 2147483647 (AcquireImmutable 1))
           @ [AcquireImmutable 1])
     \<lparr>uniques = Map.empty, borroweds = Map.empty, borrowedmuts = Map.empty, allocated = {10}\<rparr>
   = None
   \<and> wrapped_increment 2147483647 = - 2147483648"
proof -
  let ?m0 = "\<lparr>uniques = Map.empty, borroweds = Map.empty, borrowedmuts = Map.empty,
              allocated = {10}\<rparr>"
  let ?m1 = "\<lparr>uniques = [1 \<mapsto> \<lparr>data = Some 10, immutable_borrows = 0, mutable_borrowed = False\<rparr>],
              borroweds = Map.empty, borrowedmuts = Map.empty, allocated = {10}\<rparr>"
  let ?mx = "\<lparr>uniques = [1 \<mapsto> \<lparr>data = Some 10, immutable_borrows = 2147483647,
                                mutable_borrowed = False\<rparr>],
           borroweds = Map.empty, borrowedmuts = Map.empty, allocated = {10}\<rparr>"
  have c: "state_after (exec (Construct 1 (Some 10)) ?m0) = Some ?m1"
    by (simp add: Unique_ctor_def)
  have "run (replicate 2147483647 (AcquireImmutable 1)) ?m1 = Some ?mx"
    using run_acquires [of ?m1 1
        "\<lparr>data = Some 10, immutable_borrows = 0, mutable_borrowed = False\<rparr>" 2147483647]
    by (simp add: INT_MAX_def)
  with c have reach: "run (Construct 1 (Some 10) # replicate 2147483647 (AcquireImmutable 1)) ?m0
      = Some ?mx"
    by (simp only: run.simps option.case)
  have undef: "exec (AcquireImmutable 1) ?mx = Undefined"
    by (simp add: via_owner_def acquireImmutableBorrow_def increment_def INT_MAX_def)
  from reach undef have none: "run ((Construct 1 (Some 10)
        # replicate 2147483647 (AcquireImmutable 1)) @ [AcquireImmutable 1]) ?m0 = None"
    by (simp only: run_append option.case run.simps state_after_none)
  have w: "wrapped_increment 2147483647 = - 2147483648"
    by (simp add: wrapped_increment_def)
  from reach undef none w show ?thesis by (intro conjI)
qed

text \<open>
  C1, amended. Start from a memory that holds no owner.
  \<^item> Run any program whose behaviour C++ defines: constructions, destructions, moves,
    direct calls of the four borrow tracking methods, direct accesses, and the operations
    of both handle classes, on live objects and with no shared acquisition on an owner
    whose shared count is \<open>INT_MAX\<close>. In the memory reached, and so in the memory after
    every prefix of the program, every live owner has a shared count that is not negative,
    and never both the exclusive flag and a positive shared count.
  \<^item> Every program that constructs an owner and then makes at most \<open>INT_MAX\<close> calls of
    the borrow tracking methods and pointer accessors on it is such a program: it reaches
    a memory, where the owner is live and has the invariant.
\<close>

theorem borrow_state_invariant:
  assumes "uniques m = Map.empty"
  shows "(\<forall>ops m' a u. run ops m = Some m' \<and> uniques m' a = Some u \<longrightarrow>
            \<not> (mutable_borrowed u \<and> immutable_borrows u > 0) \<and> immutable_borrows u \<ge> 0)
       \<and> (\<forall>b p xs. (\<forall>x \<in> set xs. tracking_call b x) \<and> int (length xs) \<le> INT_MAX \<longrightarrow>
            (\<exists>m' u. run (Construct b p # xs) m = Some m' \<and> uniques m' b = Some u
               \<and> \<not> (mutable_borrowed u \<and> immutable_borrows u > 0)
               \<and> immutable_borrows u \<ge> 0))"
proof -
  from assms have start: "memory_inv m" by (simp add: memory_inv_def)
  have inv: "\<not> (mutable_borrowed u \<and> immutable_borrows u > 0) \<and> immutable_borrows u \<ge> 0"
    if "run ops m = Some m'" and "uniques m' a = Some u" for ops m' a u
  proof -
    from that(1) start have "memory_inv m'" by (rule run_inv)
    with that(2) have "borrow_inv u" by (simp add: memory_inv_def)
    then show ?thesis by (simp add: borrow_inv_def)
  qed
  have total: "\<exists>m' u. run (Construct b p # xs) m = Some m' \<and> uniques m' b = Some u
               \<and> \<not> (mutable_borrowed u \<and> immutable_borrows u > 0)
               \<and> immutable_borrows u \<ge> 0"
    if calls: "\<forall>x \<in> set xs. tracking_call b x" and bound: "int (length xs) \<le> INT_MAX"
    for b p xs
  proof -
    let ?u = "\<lparr>data = p, immutable_borrows = 0, mutable_borrowed = False\<rparr>"
    let ?m = "m\<lparr>uniques := (uniques m)(b \<mapsto> ?u)\<rparr>"
    from assms have c: "state_after (exec (Construct b p) m) = Some ?m"
      by (simp add: Unique_ctor_def)
    have "uniques ?m b = Some ?u" by simp
    moreover from bound have "immutable_borrows ?u + int (length xs) \<le> INT_MAX" by simp
    ultimately obtain m' u where r: "run xs ?m = Some m'" and u: "uniques m' b = Some u"
      using calls tracking_run [of ?m b ?u xs] by blast
    from c r have "run (Construct b p # xs) m = Some m'" by simp
    with u inv show ?thesis by blast
  qed
  from inv total show ?thesis by blast
qed

theorem borrow_state_invariant_witness:
  "run [Construct 1 (Some 10), Borrow 1 5, BorrowMut 1 6, DropBorrowed 5, BorrowMut 1 6,
        Destroy 1]
     \<lparr>uniques = Map.empty, borroweds = Map.empty, borrowedmuts = Map.empty, allocated = {10}\<rparr>
   = Some \<lparr>uniques = [1 \<mapsto> \<lparr>data = Some 10, immutable_borrows = 0, mutable_borrowed = True\<rparr>],
           borroweds = Map.empty,
           borrowedmuts = [6 \<mapsto> \<lparr>bm_owner = Some 1, bm_data = Some 10\<rparr>],
           allocated = {10}\<rparr>
   \<and> \<not> (mutable_borrowed \<lparr>data = Some 10, immutable_borrows = 0, mutable_borrowed = True\<rparr>
          \<and> immutable_borrows \<lparr>data = Some 10, immutable_borrows = 0, mutable_borrowed = True\<rparr> > 0)
   \<and> immutable_borrows \<lparr>data = Some 10, immutable_borrows = 0, mutable_borrowed = True\<rparr> \<ge> 0
   \<and> list_all (tracking_call 1) [AcquireImmutable 1, ArrowConst 1, ReleaseImmutable 1]
   \<and> int (length [AcquireImmutable 1, ArrowConst 1, ReleaseImmutable 1]) \<le> INT_MAX
   \<and> run (Construct 1 (Some 10) # [AcquireImmutable 1, ArrowConst 1, ReleaseImmutable 1])
     \<lparr>uniques = Map.empty, borroweds = Map.empty, borrowedmuts = Map.empty, allocated = {10}\<rparr>
   = Some \<lparr>uniques = [1 \<mapsto> \<lparr>data = Some 10, immutable_borrows = 0, mutable_borrowed = False\<rparr>],
           borroweds = Map.empty, borrowedmuts = Map.empty, allocated = {10}\<rparr>"
proof -
  let ?m0 = "\<lparr>uniques = Map.empty, borroweds = Map.empty, borrowedmuts = Map.empty,
              allocated = {10}\<rparr>"
  let ?ops = "[Construct 1 (Some 10), Borrow 1 5, BorrowMut 1 6, DropBorrowed 5, BorrowMut 1 6,
        Destroy 1]"
  let ?m' = "\<lparr>uniques = [1 \<mapsto> \<lparr>data = Some 10, immutable_borrows = 0, mutable_borrowed = True\<rparr>],
           borroweds = Map.empty,
           borrowedmuts = [6 \<mapsto> \<lparr>bm_owner = Some 1, bm_data = Some 10\<rparr>],
           allocated = {10}\<rparr>"
  let ?u = "\<lparr>data = Some 10, immutable_borrows = 0, mutable_borrowed = True\<rparr>"
  have r: "run ?ops ?m0 = Some ?m'"
    by (simp add: Unique_ctor_def borrow_def borrow_mut_def Borrowed_ctor_def BorrowedMut_ctor_def
          Borrowed_dtor_def Unique_dtor_def via_owner_def acquireImmutableBorrow_def
          acquireMutableBorrow_def releaseBorrowImmutable_def increment_def decrement_def
          INT_MAX_def INT_MIN_def bind_result_def noexcept_def)
  have t: "run (Construct 1 (Some 10) # [AcquireImmutable 1, ArrowConst 1, ReleaseImmutable 1]) ?m0
      = Some \<lparr>uniques = [1 \<mapsto> \<lparr>data = Some 10, immutable_borrows = 0, mutable_borrowed = False\<rparr>],
           borroweds = Map.empty, borrowedmuts = Map.empty, allocated = {10}\<rparr>"
    by (simp add: Unique_ctor_def via_owner_def acquireImmutableBorrow_def
          releaseBorrowImmutable_def operator_arrow_const_def increment_def decrement_def
          INT_MAX_def INT_MIN_def discard_def)
  have e: "uniques ?m0 = Map.empty" by simp
  from borrow_state_invariant [OF e]
  have "run ?ops ?m0 = Some ?m' \<and> uniques ?m' 1 = Some ?u \<longrightarrow>
      \<not> (mutable_borrowed ?u \<and> immutable_borrows ?u > 0) \<and> immutable_borrows ?u \<ge> 0"
    by blast
  with r have "\<not> (mutable_borrowed ?u \<and> immutable_borrows ?u > 0) \<and> immutable_borrows ?u \<ge> 0"
    by simp
  with r t show ?thesis by (simp add: INT_MAX_def)
qed

subsection \<open>Acquiring the exclusive borrow\<close>

text \<open>
  C4. \<open>acquireMutableBorrow\<close> throws if and only if the shared count is positive or the
  exclusive flag is set. Every throw carries the one code
  \<open>MutableBorrowOfImmutablyBorrowed\<close>, whichever of the two causes it had, and leaves the
  owner as it was. In every other state the call returns, and what it changes is the
  exclusive flag, which becomes true.
\<close>

theorem acquireMutableBorrow_spec:
  "((\<exists>e u'. acquireMutableBorrow u = Thrown e u')
      \<longleftrightarrow> (immutable_borrows u > 0 \<or> mutable_borrowed u))
   \<and> (\<forall>e u'. acquireMutableBorrow u = Thrown e u'
         \<longrightarrow> e = MutableBorrowOfImmutablyBorrowed \<and> u' = u)
   \<and> (\<not> (immutable_borrows u > 0 \<or> mutable_borrowed u)
         \<longrightarrow> acquireMutableBorrow u = Returned () (u\<lparr>mutable_borrowed := True\<rparr>))"
  by (simp add: acquireMutableBorrow_def)

theorem acquireMutableBorrow_spec_witness:
  "acquireMutableBorrow \<lparr>data = Some 7, immutable_borrows = 2, mutable_borrowed = False\<rparr>
     = Thrown MutableBorrowOfImmutablyBorrowed
         \<lparr>data = Some 7, immutable_borrows = 2, mutable_borrowed = False\<rparr>
   \<and> acquireMutableBorrow \<lparr>data = Some 7, immutable_borrows = 0, mutable_borrowed = True\<rparr>
     = Thrown MutableBorrowOfImmutablyBorrowed
         \<lparr>data = Some 7, immutable_borrows = 0, mutable_borrowed = True\<rparr>
   \<and> acquireMutableBorrow \<lparr>data = Some 7, immutable_borrows = 0, mutable_borrowed = False\<rparr>
     = Returned () \<lparr>data = Some 7, immutable_borrows = 0, mutable_borrowed = True\<rparr>"
  using acquireMutableBorrow_spec
          [of "\<lparr>data = Some 7, immutable_borrows = 2, mutable_borrowed = False\<rparr>"]
        acquireMutableBorrow_spec
          [of "\<lparr>data = Some 7, immutable_borrows = 0, mutable_borrowed = True\<rparr>"]
        acquireMutableBorrow_spec
          [of "\<lparr>data = Some 7, immutable_borrows = 0, mutable_borrowed = False\<rparr>"]
  by auto


subsection \<open>A call that throws changes nothing\<close>

text \<open>
  C2. For the four borrow tracking methods, the destructor, the move constructor and the
  move assignment of \<open>Unique\<close>: a call that throws leaves the owner (for the last three,
  the whole memory, so both owners) exactly as before the call; a call that returns has
  made the one change written below; and a call on live objects is one or the other,
  except where C++ leaves it undefined (\<open>++\<close> on a count of \<open>INT_MAX\<close>, \<open>delete\<close> of a
  pointer that is not a live allocation).
\<close>

theorem failure_leaves_state:
  "failure_is_noop acquireImmutableBorrow
   \<and> failure_is_noop acquireMutableBorrow
   \<and> failure_is_noop releaseBorrowImmutable
   \<and> failure_is_noop releaseMutableBorrow
   \<and> failure_is_noop (Unique_dtor a)
   \<and> failure_is_noop (Unique_move_ctor a b)
   \<and> failure_is_noop (Unique_move_assign a b)
   \<and> (acquireImmutableBorrow u = Returned () u' \<longrightarrow>
         u' = u\<lparr>immutable_borrows := immutable_borrows u + 1\<rparr>)
   \<and> (acquireMutableBorrow u = Returned () u' \<longrightarrow> u' = u\<lparr>mutable_borrowed := True\<rparr>)
   \<and> (releaseBorrowImmutable u = Returned () u' \<longrightarrow>
         u' = u\<lparr>immutable_borrows := immutable_borrows u - 1\<rparr>)
   \<and> (releaseMutableBorrow u = Returned () u' \<longrightarrow> u' = u\<lparr>mutable_borrowed := False\<rparr>)
   \<and> (Unique_dtor a m = Returned () m' \<longrightarrow>
         (\<exists>this live. uniques m a = Some this \<and> delete (data this) (allocated m) = Some live
            \<and> m' = m\<lparr>uniques := (uniques m)(a := None), allocated := live\<rparr>))
   \<and> (Unique_move_ctor a b m = Returned () m' \<longrightarrow>
         (\<exists>other. uniques m b = Some other
            \<and> m' = m\<lparr>uniques := (uniques m)
                 (b \<mapsto> other\<lparr>data := None, immutable_borrows := 0, mutable_borrowed := False\<rparr>,
                  a \<mapsto> \<lparr>data = data other, immutable_borrows = immutable_borrows other,
                         mutable_borrowed = False\<rparr>)\<rparr>))
   \<and> (Unique_move_assign a b m = Returned () m' \<and> a \<noteq> b \<longrightarrow>
         (\<exists>this other live. uniques m a = Some this \<and> uniques m b = Some other
            \<and> delete (data this) (allocated m) = Some live
            \<and> m' = m\<lparr>uniques := (uniques m)
                 (a \<mapsto> this\<lparr>data := data other, immutable_borrows := immutable_borrows other,
                             mutable_borrowed := False\<rparr>,
                  b \<mapsto> other\<lparr>data := None, immutable_borrows := 0,
                              mutable_borrowed := False\<rparr>),
                 allocated := live\<rparr>))
   \<and> (Unique_move_assign a a m = Returned () m' \<longrightarrow> m' = m)
   \<and> (immutable_borrows u < INT_MAX \<longrightarrow> state_after (acquireImmutableBorrow u) \<noteq> None)
   \<and> state_after (acquireMutableBorrow u) \<noteq> None
   \<and> state_after (releaseBorrowImmutable u) \<noteq> None
   \<and> state_after (releaseMutableBorrow u) \<noteq> None
   \<and> (uniques m a = Some this \<and> delete (data this) (allocated m) \<noteq> None \<longrightarrow>
         state_after (Unique_dtor a m) \<noteq> None)
   \<and> (uniques m b = Some other \<and> a \<notin> dom (uniques m) \<longrightarrow>
         state_after (Unique_move_ctor a b m) \<noteq> None)
   \<and> (uniques m a = Some this \<and> uniques m b = Some other
        \<and> delete (data this) (allocated m) \<noteq> None \<longrightarrow>
         state_after (Unique_move_assign a b m) \<noteq> None)"
proof -
  have tracking_noop:
    "failure_is_noop acquireImmutableBorrow" "failure_is_noop acquireMutableBorrow"
    "failure_is_noop releaseBorrowImmutable" "failure_is_noop releaseMutableBorrow"
    by (auto simp: failure_is_noop_def acquireImmutableBorrow_def acquireMutableBorrow_def
          releaseBorrowImmutable_def releaseMutableBorrow_def split: if_splits option.splits)
  have lifetime_noop:
    "failure_is_noop (Unique_dtor a)" "failure_is_noop (Unique_move_ctor a b)"
    "failure_is_noop (Unique_move_assign a b)"
    by (auto simp: failure_is_noop_def Unique_dtor_def Unique_move_ctor_def
          Unique_move_assign_def Let_def split: if_splits option.splits)
  have tracking_success:
    "acquireImmutableBorrow u = Returned () u' \<longrightarrow>
       u' = u\<lparr>immutable_borrows := immutable_borrows u + 1\<rparr>"
    "acquireMutableBorrow u = Returned () u' \<longrightarrow> u' = u\<lparr>mutable_borrowed := True\<rparr>"
    "releaseBorrowImmutable u = Returned () u' \<longrightarrow>
       u' = u\<lparr>immutable_borrows := immutable_borrows u - 1\<rparr>"
    "releaseMutableBorrow u = Returned () u' \<longrightarrow> u' = u\<lparr>mutable_borrowed := False\<rparr>"
    by (auto simp: acquireImmutableBorrow_def acquireMutableBorrow_def
          releaseBorrowImmutable_def releaseMutableBorrow_def increment_def decrement_def
          split: if_splits)
  have lifetime_success:
    "Unique_dtor a m = Returned () m' \<longrightarrow>
       (\<exists>this live. uniques m a = Some this \<and> delete (data this) (allocated m) = Some live
          \<and> m' = m\<lparr>uniques := (uniques m)(a := None), allocated := live\<rparr>)"
    "Unique_move_ctor a b m = Returned () m' \<longrightarrow>
       (\<exists>other. uniques m b = Some other
          \<and> m' = m\<lparr>uniques := (uniques m)
               (b \<mapsto> other\<lparr>data := None, immutable_borrows := 0, mutable_borrowed := False\<rparr>,
                a \<mapsto> \<lparr>data = data other, immutable_borrows = immutable_borrows other,
                       mutable_borrowed = False\<rparr>)\<rparr>)"
    "Unique_move_assign a b m = Returned () m' \<and> a \<noteq> b \<longrightarrow>
       (\<exists>this other live. uniques m a = Some this \<and> uniques m b = Some other
          \<and> delete (data this) (allocated m) = Some live
          \<and> m' = m\<lparr>uniques := (uniques m)
               (a \<mapsto> this\<lparr>data := data other, immutable_borrows := immutable_borrows other,
                           mutable_borrowed := False\<rparr>,
                b \<mapsto> other\<lparr>data := None, immutable_borrows := 0,
                            mutable_borrowed := False\<rparr>),
               allocated := live\<rparr>)"
    "Unique_move_assign a a m = Returned () m' \<longrightarrow> m' = m"
    by (auto simp: Unique_dtor_def Unique_move_ctor_def Unique_move_assign_def Let_def
          split: if_splits option.splits)
  have tracking_defined:
    "immutable_borrows u < INT_MAX \<longrightarrow> state_after (acquireImmutableBorrow u) \<noteq> None"
    "state_after (acquireMutableBorrow u) \<noteq> None"
    "state_after (releaseBorrowImmutable u) \<noteq> None"
    "state_after (releaseMutableBorrow u) \<noteq> None"
    by (auto simp: acquireImmutableBorrow_def acquireMutableBorrow_def
          releaseBorrowImmutable_def releaseMutableBorrow_def increment_def decrement_def
          INT_MIN_def)
  have lifetime_defined:
    "uniques m a = Some this \<and> delete (data this) (allocated m) \<noteq> None \<longrightarrow>
       state_after (Unique_dtor a m) \<noteq> None"
    "uniques m b = Some other \<and> a \<notin> dom (uniques m) \<longrightarrow>
       state_after (Unique_move_ctor a b m) \<noteq> None"
    "uniques m a = Some this \<and> uniques m b = Some other
      \<and> delete (data this) (allocated m) \<noteq> None \<longrightarrow>
       state_after (Unique_move_assign a b m) \<noteq> None"
    by (auto simp: Unique_dtor_def Unique_move_ctor_def Unique_move_assign_def Let_def)
  from tracking_noop lifetime_noop tracking_success lifetime_success tracking_defined
    lifetime_defined
  show ?thesis by blast
qed

theorem failure_leaves_state_witness:
  "acquireImmutableBorrow \<lparr>data = Some 7, immutable_borrows = 0, mutable_borrowed = True\<rparr>
     = Thrown MutableBorrowOfMutablyBorrowed
         \<lparr>data = Some 7, immutable_borrows = 0, mutable_borrowed = True\<rparr>
   \<and> acquireImmutableBorrow \<lparr>data = Some 7, immutable_borrows = 2, mutable_borrowed = False\<rparr>
     = Returned () \<lparr>data = Some 7, immutable_borrows = 3, mutable_borrowed = False\<rparr>
   \<and> Unique_dtor 1
       \<lparr>uniques = [1 \<mapsto> \<lparr>data = Some 10, immutable_borrows = 1, mutable_borrowed = False\<rparr>],
        borroweds = Map.empty, borrowedmuts = Map.empty, allocated = {10}\<rparr>
     = Thrown DestroyWithActiveBorrows
       \<lparr>uniques = [1 \<mapsto> \<lparr>data = Some 10, immutable_borrows = 1, mutable_borrowed = False\<rparr>],
        borroweds = Map.empty, borrowedmuts = Map.empty, allocated = {10}\<rparr>
   \<and> Unique_move_assign 1 2
       \<lparr>uniques = [1 \<mapsto> \<lparr>data = Some 10, immutable_borrows = 0, mutable_borrowed = False\<rparr>,
                   2 \<mapsto> \<lparr>data = Some 20, immutable_borrows = 0, mutable_borrowed = True\<rparr>],
        borroweds = Map.empty, borrowedmuts = Map.empty, allocated = {10, 20}\<rparr>
     = Thrown MoveFromWithActiveBorrows
       \<lparr>uniques = [1 \<mapsto> \<lparr>data = Some 10, immutable_borrows = 0, mutable_borrowed = False\<rparr>,
                   2 \<mapsto> \<lparr>data = Some 20, immutable_borrows = 0, mutable_borrowed = True\<rparr>],
        borroweds = Map.empty, borrowedmuts = Map.empty, allocated = {10, 20}\<rparr>"
  using failure_leaves_state
    [where u = "\<lparr>data = Some 7, immutable_borrows = 0, mutable_borrowed = True\<rparr>"
       and a = 1 and b = 2
       and m = "\<lparr>uniques = [1 \<mapsto> \<lparr>data = Some 10, immutable_borrows = 0, mutable_borrowed = False\<rparr>,
                   2 \<mapsto> \<lparr>data = Some 20, immutable_borrows = 0, mutable_borrowed = True\<rparr>],
        borroweds = Map.empty, borrowedmuts = Map.empty, allocated = {10, 20}\<rparr>"]
  by (simp add: failure_is_noop_def acquireImmutableBorrow_def increment_def INT_MAX_def
        Unique_dtor_def Unique_move_assign_def)

subsection \<open>Ownership transfer\<close>

text \<open>
  C3, as the claim states it, fails. The move assignment tests the destination first:
  with a destination and a source that both hold a shared borrow, it throws
  \<open>MoveIntoWithActiveBorrows\<close>, the code for a borrowed destination, and not
  \<open>MoveFromWithActiveBorrows\<close>, although the source has a borrow.
\<close>

theorem move_assign_both_borrowed:
  "immutable_borrows \<lparr>data = Some 20, immutable_borrows = 1, mutable_borrowed = False\<rparr> > 0
   \<and> Unique_move_assign 1 2
       \<lparr>uniques = [1 \<mapsto> \<lparr>data = Some 10, immutable_borrows = 1, mutable_borrowed = False\<rparr>,
                   2 \<mapsto> \<lparr>data = Some 20, immutable_borrows = 1, mutable_borrowed = False\<rparr>],
        borroweds = Map.empty, borrowedmuts = Map.empty, allocated = {10, 20}\<rparr>
     = Thrown MoveIntoWithActiveBorrows
       \<lparr>uniques = [1 \<mapsto> \<lparr>data = Some 10, immutable_borrows = 1, mutable_borrowed = False\<rparr>,
                   2 \<mapsto> \<lparr>data = Some 20, immutable_borrows = 1, mutable_borrowed = False\<rparr>],
        borroweds = Map.empty, borrowedmuts = Map.empty, allocated = {10, 20}\<rparr>
   \<and> thrown_code (Unique_move_assign 1 2
       \<lparr>uniques = [1 \<mapsto> \<lparr>data = Some 10, immutable_borrows = 1, mutable_borrowed = False\<rparr>,
                   2 \<mapsto> \<lparr>data = Some 20, immutable_borrows = 1, mutable_borrowed = False\<rparr>],
        borroweds = Map.empty, borrowedmuts = Map.empty, allocated = {10, 20}\<rparr>)
     \<noteq> Some MoveFromWithActiveBorrows"
  by (simp add: Unique_move_assign_def thrown_code_def)

text \<open>
  C3, amended. Take two distinct live owners, the destination \<open>this\<close> at \<open>a\<close> and the
  source \<open>other\<close> at \<open>b\<close>. The move assignment
  \<^item> throws \<open>MoveIntoWithActiveBorrows\<close> whenever the destination has a positive shared
    count or the exclusive flag;
  \<^item> throws \<open>MoveFromWithActiveBorrows\<close> whenever the source has a positive shared
    count or the exclusive flag and the destination has neither;
  \<^item> and when it returns, the destination holds the source's resource with a shared count
    of zero and no exclusive flag, the source holds the null pointer, a shared count of
    zero and no exclusive flag, and the resource the destination held before has been
    deleted. (The destination takes the count of the source, which is not positive here;
    it is zero because the count of the source is not negative, as in every memory that a
    program reaches from a memory without owners.)

  The move constructor tests the source only: it throws \<open>MoveWithActiveBorrows\<close> whenever
  the source has a positive shared count or the exclusive flag, and otherwise leaves the
  new owner and the source as the move assignment does.
\<close>

theorem move_assign_spec:
  assumes "a \<noteq> b" and "uniques m a = Some this" and "uniques m b = Some other"
  shows "(immutable_borrows this > 0 \<or> mutable_borrowed this \<longrightarrow>
            Unique_move_assign a b m = Thrown MoveIntoWithActiveBorrows m)
       \<and> (\<not> (immutable_borrows this > 0 \<or> mutable_borrowed this)
          \<and> (immutable_borrows other > 0 \<or> mutable_borrowed other) \<longrightarrow>
            Unique_move_assign a b m = Thrown MoveFromWithActiveBorrows m)
       \<and> (\<forall>m'. Unique_move_assign a b m = Returned () m' \<and> 0 \<le> immutable_borrows other \<longrightarrow>
            uniques m' a
              = Some \<lparr>data = data other, immutable_borrows = 0, mutable_borrowed = False\<rparr>
          \<and> uniques m' b = Some \<lparr>data = None, immutable_borrows = 0, mutable_borrowed = False\<rparr>
          \<and> delete (data this) (allocated m) = Some (allocated m'))
       \<and> (\<forall>c. c \<notin> dom (uniques m) \<longrightarrow>
            (immutable_borrows other > 0 \<or> mutable_borrowed other \<longrightarrow>
               Unique_move_ctor c b m = Thrown MoveWithActiveBorrows m)
          \<and> (\<forall>m'. Unique_move_ctor c b m = Returned () m' \<and> 0 \<le> immutable_borrows other \<longrightarrow>
               uniques m' c
                 = Some \<lparr>data = data other, immutable_borrows = 0, mutable_borrowed = False\<rparr>
             \<and> uniques m' b
                 = Some \<lparr>data = None, immutable_borrows = 0, mutable_borrowed = False\<rparr>))
       \<and> (\<forall>m0 ops. uniques m0 = Map.empty \<and> run ops m0 = Some m \<longrightarrow>
            0 \<le> immutable_borrows other)"
proof -
  have reached: "0 \<le> immutable_borrows other"
    if "uniques m0 = Map.empty" and "run ops m0 = Some m" for m0 ops
  proof -
    from that(1) have "memory_inv m0" by (simp add: memory_inv_def)
    with that(2) have "memory_inv m" by (rule run_inv)
    with assms(3) show ?thesis by (simp add: memory_inv_def borrow_inv_def)
  qed
  have assign: "(immutable_borrows this > 0 \<or> mutable_borrowed this \<longrightarrow>
            Unique_move_assign a b m = Thrown MoveIntoWithActiveBorrows m)
       \<and> (\<not> (immutable_borrows this > 0 \<or> mutable_borrowed this)
          \<and> (immutable_borrows other > 0 \<or> mutable_borrowed other) \<longrightarrow>
            Unique_move_assign a b m = Thrown MoveFromWithActiveBorrows m)
       \<and> (\<forall>m'. Unique_move_assign a b m = Returned () m' \<and> 0 \<le> immutable_borrows other \<longrightarrow>
            uniques m' a
              = Some \<lparr>data = data other, immutable_borrows = 0, mutable_borrowed = False\<rparr>
          \<and> uniques m' b = Some \<lparr>data = None, immutable_borrows = 0, mutable_borrowed = False\<rparr>
          \<and> delete (data this) (allocated m) = Some (allocated m'))"
    using assms by (auto simp: Unique_move_assign_def split: option.splits if_splits)
  have ctor: "c \<notin> dom (uniques m) \<longrightarrow>
            (immutable_borrows other > 0 \<or> mutable_borrowed other \<longrightarrow>
               Unique_move_ctor c b m = Thrown MoveWithActiveBorrows m)
          \<and> (\<forall>m'. Unique_move_ctor c b m = Returned () m' \<and> 0 \<le> immutable_borrows other \<longrightarrow>
               uniques m' c
                 = Some \<lparr>data = data other, immutable_borrows = 0, mutable_borrowed = False\<rparr>
             \<and> uniques m' b
                 = Some \<lparr>data = None, immutable_borrows = 0, mutable_borrowed = False\<rparr>)" for c
    using assms(3) by (auto simp: Unique_move_ctor_def Let_def split: if_splits)
  from assign ctor reached show ?thesis by blast
qed

theorem move_assign_spec_witness:
  "run [Construct 1 (Some 10), Construct 2 (Some 20)]
       \<lparr>uniques = Map.empty, borroweds = Map.empty, borrowedmuts = Map.empty,
        allocated = {10, 20}\<rparr>
     = Some
       \<lparr>uniques = [1 \<mapsto> \<lparr>data = Some 10, immutable_borrows = 0, mutable_borrowed = False\<rparr>,
                   2 \<mapsto> \<lparr>data = Some 20, immutable_borrows = 0, mutable_borrowed = False\<rparr>],
        borroweds = Map.empty, borrowedmuts = Map.empty, allocated = {10, 20}\<rparr>
   \<and> Unique_move_assign 1 2
       \<lparr>uniques = [1 \<mapsto> \<lparr>data = Some 10, immutable_borrows = 0, mutable_borrowed = False\<rparr>,
                   2 \<mapsto> \<lparr>data = Some 20, immutable_borrows = 1, mutable_borrowed = False\<rparr>],
        borroweds = Map.empty, borrowedmuts = Map.empty, allocated = {10, 20}\<rparr>
     = Thrown MoveFromWithActiveBorrows
       \<lparr>uniques = [1 \<mapsto> \<lparr>data = Some 10, immutable_borrows = 0, mutable_borrowed = False\<rparr>,
                   2 \<mapsto> \<lparr>data = Some 20, immutable_borrows = 1, mutable_borrowed = False\<rparr>],
        borroweds = Map.empty, borrowedmuts = Map.empty, allocated = {10, 20}\<rparr>
   \<and> Unique_move_assign 1 2
       \<lparr>uniques = [1 \<mapsto> \<lparr>data = Some 10, immutable_borrows = 0, mutable_borrowed = False\<rparr>,
                   2 \<mapsto> \<lparr>data = Some 20, immutable_borrows = 0, mutable_borrowed = False\<rparr>],
        borroweds = Map.empty, borrowedmuts = Map.empty, allocated = {10, 20}\<rparr>
     = Returned ()
       \<lparr>uniques = [1 \<mapsto> \<lparr>data = Some 20, immutable_borrows = 0, mutable_borrowed = False\<rparr>,
                   2 \<mapsto> \<lparr>data = None, immutable_borrows = 0, mutable_borrowed = False\<rparr>],
        borroweds = Map.empty, borrowedmuts = Map.empty, allocated = {20}\<rparr>
   \<and> delete (Some 10) {10, 20} = Some {20}"
proof -
  have reach: "run [Construct 1 (Some 10), Construct 2 (Some 20)]
       \<lparr>uniques = Map.empty, borroweds = Map.empty, borrowedmuts = Map.empty,
        allocated = {10, 20}\<rparr>
     = Some
       \<lparr>uniques = [1 \<mapsto> \<lparr>data = Some 10, immutable_borrows = 0, mutable_borrowed = False\<rparr>,
                   2 \<mapsto> \<lparr>data = Some 20, immutable_borrows = 0, mutable_borrowed = False\<rparr>],
        borroweds = Map.empty, borrowedmuts = Map.empty, allocated = {10, 20}\<rparr>"
    by (simp add: Unique_ctor_def)
  have r: "Unique_move_assign 1 2
       \<lparr>uniques = [1 \<mapsto> \<lparr>data = Some 10, immutable_borrows = 0, mutable_borrowed = False\<rparr>,
                   2 \<mapsto> \<lparr>data = Some 20, immutable_borrows = 0, mutable_borrowed = False\<rparr>],
        borroweds = Map.empty, borrowedmuts = Map.empty, allocated = {10, 20}\<rparr>
     = Returned ()
       \<lparr>uniques = [1 \<mapsto> \<lparr>data = Some 20, immutable_borrows = 0, mutable_borrowed = False\<rparr>,
                   2 \<mapsto> \<lparr>data = None, immutable_borrows = 0, mutable_borrowed = False\<rparr>],
        borroweds = Map.empty, borrowedmuts = Map.empty, allocated = {20}\<rparr>"
    by (simp add: Unique_move_assign_def delete_def)
  from move_assign_spec [of 1 2
      "\<lparr>uniques = [1 \<mapsto> \<lparr>data = Some 10, immutable_borrows = 0, mutable_borrowed = False\<rparr>,
                   2 \<mapsto> \<lparr>data = Some 20, immutable_borrows = 1, mutable_borrowed = False\<rparr>],
        borroweds = Map.empty, borrowedmuts = Map.empty, allocated = {10, 20}\<rparr>"
      "\<lparr>data = Some 10, immutable_borrows = 0, mutable_borrowed = False\<rparr>"
      "\<lparr>data = Some 20, immutable_borrows = 1, mutable_borrowed = False\<rparr>"]
    move_assign_spec [of 1 2
      "\<lparr>uniques = [1 \<mapsto> \<lparr>data = Some 10, immutable_borrows = 0, mutable_borrowed = False\<rparr>,
                   2 \<mapsto> \<lparr>data = Some 20, immutable_borrows = 0, mutable_borrowed = False\<rparr>],
        borroweds = Map.empty, borrowedmuts = Map.empty, allocated = {10, 20}\<rparr>"
      "\<lparr>data = Some 10, immutable_borrows = 0, mutable_borrowed = False\<rparr>"
      "\<lparr>data = Some 20, immutable_borrows = 0, mutable_borrowed = False\<rparr>"]
    r reach
  show ?thesis by simp
qed

subsection \<open>Destruction\<close>

text \<open>
  C5. For a live owner, the destructor throws if and only if the shared count is positive
  or the exclusive flag is set, and the code is \<open>DestroyWithActiveBorrows\<close>. Otherwise
  it deletes the resource: a live resource leaves the set of allocations (for an empty
  owner, \<open>delete\<close> of the null pointer does nothing), and the owner is gone. In
  particular, with one live \<open>Borrowed\<close> handle and a shared count of one the destructor
  throws and changes nothing; the destructor of the handle brings the count to zero; and
  then the destructor of the owner returns and the resource is deleted.
\<close>

theorem destructor_spec:
  assumes "uniques m a = Some u"
  shows "thrown_code (Unique_dtor a m)
           = (if immutable_borrows u > 0 \<or> mutable_borrowed u
              then Some DestroyWithActiveBorrows else None)
       \<and> (\<not> (immutable_borrows u > 0 \<or> mutable_borrowed u) \<longrightarrow>
            (\<forall>p. data u = Some p \<and> p \<in> allocated m \<longrightarrow>
               Unique_dtor a m = Returned ()
                 (m\<lparr>uniques := (uniques m)(a := None), allocated := allocated m - {p}\<rparr>))
          \<and> (data u = None \<longrightarrow>
               Unique_dtor a m = Returned () (m\<lparr>uniques := (uniques m)(a := None)\<rparr>)))
       \<and> (immutable_borrows u = 1 \<and> \<not> mutable_borrowed u
          \<and> borroweds m h = Some \<lparr>b_owner = Some a, b_data = data u\<rparr> \<longrightarrow>
            Unique_dtor a m = Thrown DestroyWithActiveBorrows m
          \<and> (\<exists>m1. Borrowed_dtor h m = Returned () m1
                \<and> uniques m1 a = Some (u\<lparr>immutable_borrows := 0\<rparr>)
                \<and> thrown_code (Unique_dtor a m1) = None
                \<and> (\<forall>p. data u = Some p \<and> p \<in> allocated m \<longrightarrow>
                      (\<exists>m2. Unique_dtor a m1 = Returned () m2 \<and> uniques m2 a = None
                          \<and> allocated m2 = allocated m - {p}))))"
  using assms
  by (auto simp: thrown_code_def Unique_dtor_def delete_def Borrowed_dtor_def via_owner_def
        releaseBorrowImmutable_def decrement_def INT_MIN_def bind_result_def noexcept_def
        split: option.splits if_splits)

theorem destructor_spec_witness:
  "Unique_dtor 1
     \<lparr>uniques = [1 \<mapsto> \<lparr>data = Some 10, immutable_borrows = 1, mutable_borrowed = False\<rparr>],
      borroweds = [5 \<mapsto> \<lparr>b_owner = Some 1, b_data = Some 10\<rparr>],
      borrowedmuts = Map.empty, allocated = {10}\<rparr>
   = Thrown DestroyWithActiveBorrows
     \<lparr>uniques = [1 \<mapsto> \<lparr>data = Some 10, immutable_borrows = 1, mutable_borrowed = False\<rparr>],
      borroweds = [5 \<mapsto> \<lparr>b_owner = Some 1, b_data = Some 10\<rparr>],
      borrowedmuts = Map.empty, allocated = {10}\<rparr>
   \<and> Borrowed_dtor 5
     \<lparr>uniques = [1 \<mapsto> \<lparr>data = Some 10, immutable_borrows = 1, mutable_borrowed = False\<rparr>],
      borroweds = [5 \<mapsto> \<lparr>b_owner = Some 1, b_data = Some 10\<rparr>],
      borrowedmuts = Map.empty, allocated = {10}\<rparr>
   = Returned ()
     \<lparr>uniques = [1 \<mapsto> \<lparr>data = Some 10, immutable_borrows = 0, mutable_borrowed = False\<rparr>],
      borroweds = Map.empty, borrowedmuts = Map.empty, allocated = {10}\<rparr>
   \<and> Unique_dtor 1
     \<lparr>uniques = [1 \<mapsto> \<lparr>data = Some 10, immutable_borrows = 0, mutable_borrowed = False\<rparr>],
      borroweds = Map.empty, borrowedmuts = Map.empty, allocated = {10}\<rparr>
   = Returned ()
     \<lparr>uniques = Map.empty, borroweds = Map.empty, borrowedmuts = Map.empty, allocated = {}\<rparr>"
proof -
  have d: "Borrowed_dtor 5
     \<lparr>uniques = [1 \<mapsto> \<lparr>data = Some 10, immutable_borrows = 1, mutable_borrowed = False\<rparr>],
      borroweds = [5 \<mapsto> \<lparr>b_owner = Some 1, b_data = Some 10\<rparr>],
      borrowedmuts = Map.empty, allocated = {10}\<rparr>
   = Returned ()
     \<lparr>uniques = [1 \<mapsto> \<lparr>data = Some 10, immutable_borrows = 0, mutable_borrowed = False\<rparr>],
      borroweds = Map.empty, borrowedmuts = Map.empty, allocated = {10}\<rparr>"
    by (simp add: Borrowed_dtor_def via_owner_def releaseBorrowImmutable_def decrement_def
          INT_MIN_def bind_result_def noexcept_def)
  from destructor_spec [of
      "\<lparr>uniques = [1 \<mapsto> \<lparr>data = Some 10, immutable_borrows = 1, mutable_borrowed = False\<rparr>],
      borroweds = [5 \<mapsto> \<lparr>b_owner = Some 1, b_data = Some 10\<rparr>],
      borrowedmuts = Map.empty, allocated = {10}\<rparr>"
      1 "\<lparr>data = Some 10, immutable_borrows = 1, mutable_borrowed = False\<rparr>" 5]
    destructor_spec [of
      "\<lparr>uniques = [1 \<mapsto> \<lparr>data = Some 10, immutable_borrows = 0, mutable_borrowed = False\<rparr>],
      borroweds = Map.empty, borrowedmuts = Map.empty, allocated = {10}\<rparr>"
      1 "\<lparr>data = Some 10, immutable_borrows = 0, mutable_borrowed = False\<rparr>" 5]
    d
  show ?thesis by simp
qed

subsection \<open>Direct access\<close>

text \<open>
  C6. The three const accessors (\<open>operator->\<close>, \<open>operator*\<close>, \<open>get\<close>) throw exactly
  when the exclusive flag is set, with the code \<open>AccessWhileMutablyBorrowed\<close>; without the
  flag they return the pointer whatever the shared count is. The three non-const accessors
  throw \<open>AccessWhileBorrowed\<close> exactly when the shared count is positive or the exclusive
  flag is set.
\<close>

theorem direct_access_spec:
  "thrown_code (operator_arrow_const u)
      = (if mutable_borrowed u then Some AccessWhileMutablyBorrowed else None)
   \<and> thrown_code (operator_star_const live u)
      = (if mutable_borrowed u then Some AccessWhileMutablyBorrowed else None)
   \<and> thrown_code (get_const u)
      = (if mutable_borrowed u then Some AccessWhileMutablyBorrowed else None)
   \<and> (\<not> mutable_borrowed u \<longrightarrow>
         operator_arrow_const u = Returned (data u) u
       \<and> get_const u = Returned (data u) u
       \<and> (\<forall>x. data u = Some x \<and> x \<in> live \<longrightarrow> operator_star_const live u = Returned x u))
   \<and> thrown_code (operator_arrow u)
      = (if immutable_borrows u > 0 \<or> mutable_borrowed u then Some AccessWhileBorrowed else None)
   \<and> thrown_code (operator_star live u)
      = (if immutable_borrows u > 0 \<or> mutable_borrowed u then Some AccessWhileBorrowed else None)
   \<and> thrown_code (get u)
      = (if immutable_borrows u > 0 \<or> mutable_borrowed u then Some AccessWhileBorrowed else None)"
  by (simp add: thrown_code_def operator_arrow_const_def operator_star_const_def get_const_def
        operator_arrow_def operator_star_def get_def indirection_def split: option.splits)

theorem direct_access_spec_witness:
  "get_const \<lparr>data = Some 10, immutable_borrows = 3, mutable_borrowed = False\<rparr>
     = Returned (Some 10) \<lparr>data = Some 10, immutable_borrows = 3, mutable_borrowed = False\<rparr>
   \<and> operator_star_const {10} \<lparr>data = Some 10, immutable_borrows = 3, mutable_borrowed = False\<rparr>
     = Returned 10 \<lparr>data = Some 10, immutable_borrows = 3, mutable_borrowed = False\<rparr>
   \<and> thrown_code (get \<lparr>data = Some 10, immutable_borrows = 3, mutable_borrowed = False\<rparr>)
     = Some AccessWhileBorrowed
   \<and> thrown_code (get_const \<lparr>data = Some 10, immutable_borrows = 0, mutable_borrowed = True\<rparr>)
     = Some AccessWhileMutablyBorrowed"
  using direct_access_spec
          [of "\<lparr>data = Some 10, immutable_borrows = 3, mutable_borrowed = False\<rparr>" "{10}"]
        direct_access_spec
          [of "\<lparr>data = Some 10, immutable_borrows = 0, mutable_borrowed = True\<rparr>" "{10}"]
  by simp

subsection \<open>Acquire, then release\<close>

text \<open>
  C7. Take an owner whose shared count is not negative, as the count of every owner is in
  every memory that a program reaches from a memory without owners (last part). If
  \<open>acquireImmutableBorrow\<close> returns, then \<open>releaseBorrowImmutable\<close> on the state it
  left returns too and the owner is as it was before the pair: the shared count is the old
  one. If \<open>acquireMutableBorrow\<close> returns, then \<open>releaseMutableBorrow\<close> on the
  state it left returns and the owner is as it was before the pair: the exclusive flag is
  the old one.
\<close>

theorem acquire_release_roundtrip:
  "(0 \<le> immutable_borrows u \<and> acquireImmutableBorrow u = Returned () u1 \<longrightarrow>
      releaseBorrowImmutable u1 = Returned () u
      \<and> bind_result (acquireImmutableBorrow u) (\<lambda>_. releaseBorrowImmutable) = Returned () u)
   \<and> (acquireMutableBorrow u = Returned () u1 \<longrightarrow>
      releaseMutableBorrow u1 = Returned () u
      \<and> bind_result (acquireMutableBorrow u) (\<lambda>_. releaseMutableBorrow) = Returned () u)
   \<and> (\<forall>m0 ops m a. uniques m0 = Map.empty \<and> run ops m0 = Some m \<and> uniques m a = Some u \<longrightarrow>
         0 \<le> immutable_borrows u)"
proof -
  have pair: "(0 \<le> immutable_borrows u \<and> acquireImmutableBorrow u = Returned () u1 \<longrightarrow>
      releaseBorrowImmutable u1 = Returned () u
      \<and> bind_result (acquireImmutableBorrow u) (\<lambda>_. releaseBorrowImmutable) = Returned () u)
   \<and> (acquireMutableBorrow u = Returned () u1 \<longrightarrow>
      releaseMutableBorrow u1 = Returned () u
      \<and> bind_result (acquireMutableBorrow u) (\<lambda>_. releaseMutableBorrow) = Returned () u)"
    by (auto simp: acquireImmutableBorrow_def releaseBorrowImmutable_def acquireMutableBorrow_def
          releaseMutableBorrow_def increment_def decrement_def INT_MAX_def INT_MIN_def
          bind_result_def split: if_splits)
  have reached: "0 \<le> immutable_borrows u"
    if "uniques m0 = Map.empty" and "run ops m0 = Some m" and "uniques m a = Some u"
    for m0 ops m a
  proof -
    from that(1) have "memory_inv m0" by (simp add: memory_inv_def)
    with that(2) have "memory_inv m" by (rule run_inv)
    with that(3) show ?thesis by (simp add: memory_inv_def borrow_inv_def)
  qed
  from pair reached show ?thesis by blast
qed

theorem acquire_release_roundtrip_witness:
  "run [Construct 1 (Some 10), AcquireImmutable 1, AcquireImmutable 1]
     \<lparr>uniques = Map.empty, borroweds = Map.empty, borrowedmuts = Map.empty, allocated = {10}\<rparr>
     = Some \<lparr>uniques = [1 \<mapsto> \<lparr>data = Some 10, immutable_borrows = 2, mutable_borrowed = False\<rparr>],
             borroweds = Map.empty, borrowedmuts = Map.empty, allocated = {10}\<rparr>
   \<and> acquireImmutableBorrow \<lparr>data = Some 10, immutable_borrows = 2, mutable_borrowed = False\<rparr>
     = Returned () \<lparr>data = Some 10, immutable_borrows = 3, mutable_borrowed = False\<rparr>
   \<and> releaseBorrowImmutable \<lparr>data = Some 10, immutable_borrows = 3, mutable_borrowed = False\<rparr>
     = Returned () \<lparr>data = Some 10, immutable_borrows = 2, mutable_borrowed = False\<rparr>
   \<and> acquireMutableBorrow \<lparr>data = Some 10, immutable_borrows = 0, mutable_borrowed = False\<rparr>
     = Returned () \<lparr>data = Some 10, immutable_borrows = 0, mutable_borrowed = True\<rparr>
   \<and> releaseMutableBorrow \<lparr>data = Some 10, immutable_borrows = 0, mutable_borrowed = True\<rparr>
     = Returned () \<lparr>data = Some 10, immutable_borrows = 0, mutable_borrowed = False\<rparr>"
proof -
  have r: "run [Construct 1 (Some 10), AcquireImmutable 1, AcquireImmutable 1]
     \<lparr>uniques = Map.empty, borroweds = Map.empty, borrowedmuts = Map.empty, allocated = {10}\<rparr>
     = Some \<lparr>uniques = [1 \<mapsto> \<lparr>data = Some 10, immutable_borrows = 2, mutable_borrowed = False\<rparr>],
             borroweds = Map.empty, borrowedmuts = Map.empty, allocated = {10}\<rparr>"
    by (simp add: Unique_ctor_def via_owner_def acquireImmutableBorrow_def increment_def
          INT_MAX_def)
  have a: "acquireImmutableBorrow \<lparr>data = Some 10, immutable_borrows = 2, mutable_borrowed = False\<rparr>
     = Returned () \<lparr>data = Some 10, immutable_borrows = 3, mutable_borrowed = False\<rparr>"
    by (simp add: acquireImmutableBorrow_def increment_def INT_MAX_def)
  have b: "acquireMutableBorrow \<lparr>data = Some 10, immutable_borrows = 0, mutable_borrowed = False\<rparr>
     = Returned () \<lparr>data = Some 10, immutable_borrows = 0, mutable_borrowed = True\<rparr>"
    by (simp add: acquireMutableBorrow_def)
  from acquire_release_roundtrip
      [of "\<lparr>data = Some 10, immutable_borrows = 2, mutable_borrowed = False\<rparr>"
          "\<lparr>data = Some 10, immutable_borrows = 3, mutable_borrowed = False\<rparr>"]
  have nonneg: "0 \<le> immutable_borrows \<lparr>data = Some 10, immutable_borrows = 2, mutable_borrowed = False\<rparr>"
    using r by (elim conjE allE [where x = "\<lparr>uniques = Map.empty, borroweds = Map.empty,
          borrowedmuts = Map.empty, allocated = {10}\<rparr>"]) fastforce
  from acquire_release_roundtrip
      [of "\<lparr>data = Some 10, immutable_borrows = 2, mutable_borrowed = False\<rparr>"
          "\<lparr>data = Some 10, immutable_borrows = 3, mutable_borrowed = False\<rparr>"]
    acquire_release_roundtrip
      [of "\<lparr>data = Some 10, immutable_borrows = 0, mutable_borrowed = False\<rparr>"
          "\<lparr>data = Some 10, immutable_borrows = 0, mutable_borrowed = True\<rparr>"]
    a b r nonneg
  show ?thesis by simp
qed

subsection \<open>Reassigning a shared handle\<close>

text \<open>
  C8. Take two distinct \<open>Borrowed\<close> handles, \<open>this\<close> at \<open>h\<close> on the owner at \<open>a\<close> and
  \<open>other\<close> at \<open>g\<close> on a different owner at \<open>b\<close>. When \<open>this\<close> holds a unit of its
  owner's shared count (the count is positive), the copy assignment releases one unit on
  the owner at \<open>a\<close>, makes \<open>this\<close> point to the owner and the resource of \<open>other\<close>,
  and acquires one unit on the owner at \<open>b\<close>. When that acquisition returns, the
  assignment returns, the count of the old owner is one less and the count of the new
  owner one more. The steps run in this order: when the acquisition throws (the new owner
  has the exclusive flag), the old owner has already lost its unit and the handle already
  points to the new owner. When the old owner has no unit to release, the release throws
  and nothing has changed.
\<close>

theorem Borrowed_assign_spec:
  assumes "h \<noteq> g" and "borroweds m h = Some this" and "borroweds m g = Some other"
    and "b_owner this = Some a" and "b_owner other = Some b" and "a \<noteq> b"
    and "uniques m a = Some ua" and "uniques m b = Some ub"
  shows "(immutable_borrows ua > 0 \<longrightarrow>
            (\<forall>ub'. acquireImmutableBorrow ub = Returned () ub' \<longrightarrow>
               Borrowed_assign h g m = Returned ()
                 (m\<lparr>uniques := (uniques m)
                       (a \<mapsto> ua\<lparr>immutable_borrows := immutable_borrows ua - 1\<rparr>,
                        b \<mapsto> ub\<lparr>immutable_borrows := immutable_borrows ub + 1\<rparr>),
                    borroweds := (borroweds m)
                       (h \<mapsto> \<lparr>b_owner = Some b, b_data = b_data other\<rparr>)\<rparr>))
          \<and> (mutable_borrowed ub \<longrightarrow>
               (\<exists>m'. Borrowed_assign h g m = Thrown MutableBorrowOfMutablyBorrowed m'
                  \<and> uniques m' a = Some (ua\<lparr>immutable_borrows := immutable_borrows ua - 1\<rparr>)
                  \<and> uniques m' b = Some ub
                  \<and> borroweds m' h = Some \<lparr>b_owner = Some b, b_data = b_data other\<rparr>)))
       \<and> (immutable_borrows ua \<le> 0 \<longrightarrow>
            Borrowed_assign h g m = Thrown ReleaseNonExistentImmutableBorrow m)"
proof -
  have returned: "Borrowed_assign h g m = Returned ()
                 (m\<lparr>uniques := (uniques m)
                       (a \<mapsto> ua\<lparr>immutable_borrows := immutable_borrows ua - 1\<rparr>,
                        b \<mapsto> ub\<lparr>immutable_borrows := immutable_borrows ub + 1\<rparr>),
                    borroweds := (borroweds m)
                       (h \<mapsto> \<lparr>b_owner = Some b, b_data = b_data other\<rparr>)\<rparr>)"
    if "immutable_borrows ua > 0" and "acquireImmutableBorrow ub = Returned () ub'" for ub'
    using assms that
    by (auto simp: Borrowed_assign_def via_owner_def releaseBorrowImmutable_def
          acquireImmutableBorrow_def increment_def decrement_def INT_MIN_def bind_result_def
          split: if_splits)
  have thrown: "\<exists>m'. Borrowed_assign h g m = Thrown MutableBorrowOfMutablyBorrowed m'
                  \<and> uniques m' a = Some (ua\<lparr>immutable_borrows := immutable_borrows ua - 1\<rparr>)
                  \<and> uniques m' b = Some ub
                  \<and> borroweds m' h = Some \<lparr>b_owner = Some b, b_data = b_data other\<rparr>"
    if "immutable_borrows ua > 0" and "mutable_borrowed ub"
    using assms that
    by (auto simp: Borrowed_assign_def via_owner_def releaseBorrowImmutable_def
          acquireImmutableBorrow_def decrement_def INT_MIN_def bind_result_def)
  have no_unit: "Borrowed_assign h g m = Thrown ReleaseNonExistentImmutableBorrow m"
    if "immutable_borrows ua \<le> 0"
    using assms that
    by (simp add: Borrowed_assign_def via_owner_def releaseBorrowImmutable_def bind_result_def
          map_upd_triv)
  from returned thrown no_unit show ?thesis by blast
qed

theorem Borrowed_assign_spec_witness:
  "Borrowed_assign 5 6
     \<lparr>uniques = [1 \<mapsto> \<lparr>data = Some 10, immutable_borrows = 1, mutable_borrowed = False\<rparr>,
                 2 \<mapsto> \<lparr>data = Some 20, immutable_borrows = 1, mutable_borrowed = False\<rparr>],
      borroweds = [5 \<mapsto> \<lparr>b_owner = Some 1, b_data = Some 10\<rparr>,
                   6 \<mapsto> \<lparr>b_owner = Some 2, b_data = Some 20\<rparr>],
      borrowedmuts = Map.empty, allocated = {10, 20}\<rparr>
   = Returned ()
     \<lparr>uniques = [1 \<mapsto> \<lparr>data = Some 10, immutable_borrows = 0, mutable_borrowed = False\<rparr>,
                 2 \<mapsto> \<lparr>data = Some 20, immutable_borrows = 2, mutable_borrowed = False\<rparr>],
      borroweds = [5 \<mapsto> \<lparr>b_owner = Some 2, b_data = Some 20\<rparr>,
                   6 \<mapsto> \<lparr>b_owner = Some 2, b_data = Some 20\<rparr>],
      borrowedmuts = Map.empty, allocated = {10, 20}\<rparr>"
proof -
  have acq: "acquireImmutableBorrow \<lparr>data = Some 20, immutable_borrows = 1, mutable_borrowed = False\<rparr>
      = Returned () \<lparr>data = Some 20, immutable_borrows = 2, mutable_borrowed = False\<rparr>"
    by (simp add: acquireImmutableBorrow_def increment_def INT_MAX_def)
  have upd: "[6 \<mapsto> \<lparr>b_owner = Some 2, b_data = Some 20\<rparr>,
              5 \<mapsto> \<lparr>b_owner = Some 2, b_data = Some 20\<rparr>]
           = [(5::nat) \<mapsto> \<lparr>b_owner = Some (2::nat), b_data = Some (20::nat)\<rparr>,
              6 \<mapsto> \<lparr>b_owner = Some 2, b_data = Some 20\<rparr>]"
    by (rule ext) simp
  from Borrowed_assign_spec [of 5 6
      "\<lparr>uniques = [1 \<mapsto> \<lparr>data = Some 10, immutable_borrows = 1, mutable_borrowed = False\<rparr>,
                 2 \<mapsto> \<lparr>data = Some 20, immutable_borrows = 1, mutable_borrowed = False\<rparr>],
      borroweds = [5 \<mapsto> \<lparr>b_owner = Some 1, b_data = Some 10\<rparr>,
                   6 \<mapsto> \<lparr>b_owner = Some 2, b_data = Some 20\<rparr>],
      borrowedmuts = Map.empty, allocated = {10, 20}\<rparr>"
      "\<lparr>b_owner = Some 1, b_data = Some 10\<rparr>" "\<lparr>b_owner = Some 2, b_data = Some 20\<rparr>"
      1 2
      "\<lparr>data = Some 10, immutable_borrows = 1, mutable_borrowed = False\<rparr>"
      "\<lparr>data = Some 20, immutable_borrows = 1, mutable_borrowed = False\<rparr>"]
    acq upd
  show ?thesis by simp
qed

subsection \<open>Borrowing from an owner that was moved from\<close>

text \<open>
  C9. A completed move assignment or move construction leaves its source with the null
  pointer, a shared count of zero and no exclusive flag. On such an owner \<open>borrow()\<close>
  returns: nothing is thrown, the shared count becomes one, and the new handle points to
  the owner and holds the null pointer, which is what its \<open>get()\<close> returns.
\<close>

theorem borrow_of_empty_owner:
  "(c \<noteq> a \<and> Unique_move_assign c a m0 = Returned () m \<longrightarrow>
      uniques m a = Some \<lparr>data = None, immutable_borrows = 0, mutable_borrowed = False\<rparr>)
   \<and> (Unique_move_ctor c a m0 = Returned () m \<longrightarrow>
      uniques m a = Some \<lparr>data = None, immutable_borrows = 0, mutable_borrowed = False\<rparr>)
   \<and> (uniques m a = Some \<lparr>data = None, immutable_borrows = 0, mutable_borrowed = False\<rparr>
      \<and> h \<notin> dom (borroweds m) \<longrightarrow>
        borrow a h m = Returned ()
          (m\<lparr>uniques := (uniques m)
                (a \<mapsto> \<lparr>data = None, immutable_borrows = 1, mutable_borrowed = False\<rparr>),
             borroweds := (borroweds m)(h \<mapsto> \<lparr>b_owner = Some a, b_data = None\<rparr>)\<rparr>)
      \<and> Borrowed_get \<lparr>b_owner = Some a, b_data = None\<rparr> = None)"
  by (auto simp: Unique_move_assign_def Unique_move_ctor_def Let_def
        borrow_def Borrowed_ctor_def via_owner_def acquireImmutableBorrow_def
        increment_def INT_MAX_def bind_result_def Borrowed_get_def
        split: if_splits option.splits)

theorem borrow_of_empty_owner_witness:
  "Unique_move_assign 1 2
       \<lparr>uniques = [1 \<mapsto> \<lparr>data = Some 10, immutable_borrows = 0, mutable_borrowed = False\<rparr>,
                   2 \<mapsto> \<lparr>data = Some 20, immutable_borrows = 0, mutable_borrowed = False\<rparr>],
        borroweds = Map.empty, borrowedmuts = Map.empty, allocated = {10, 20}\<rparr>
     = Returned ()
       \<lparr>uniques = [1 \<mapsto> \<lparr>data = Some 20, immutable_borrows = 0, mutable_borrowed = False\<rparr>,
                   2 \<mapsto> \<lparr>data = None, immutable_borrows = 0, mutable_borrowed = False\<rparr>],
        borroweds = Map.empty, borrowedmuts = Map.empty, allocated = {20}\<rparr>
   \<and> borrow 2 5
       \<lparr>uniques = [1 \<mapsto> \<lparr>data = Some 20, immutable_borrows = 0, mutable_borrowed = False\<rparr>,
                   2 \<mapsto> \<lparr>data = None, immutable_borrows = 0, mutable_borrowed = False\<rparr>],
        borroweds = Map.empty, borrowedmuts = Map.empty, allocated = {20}\<rparr>
     = Returned ()
       \<lparr>uniques = [1 \<mapsto> \<lparr>data = Some 20, immutable_borrows = 0, mutable_borrowed = False\<rparr>,
                   2 \<mapsto> \<lparr>data = None, immutable_borrows = 1, mutable_borrowed = False\<rparr>],
        borroweds = [5 \<mapsto> \<lparr>b_owner = Some 2, b_data = None\<rparr>],
        borrowedmuts = Map.empty, allocated = {20}\<rparr>
   \<and> Borrowed_get \<lparr>b_owner = Some 2, b_data = None\<rparr> = None"
proof -
  have mv: "Unique_move_assign 1 2
       \<lparr>uniques = [1 \<mapsto> \<lparr>data = Some 10, immutable_borrows = 0, mutable_borrowed = False\<rparr>,
                   2 \<mapsto> \<lparr>data = Some 20, immutable_borrows = 0, mutable_borrowed = False\<rparr>],
        borroweds = Map.empty, borrowedmuts = Map.empty, allocated = {10, 20}\<rparr>
     = Returned ()
       \<lparr>uniques = [1 \<mapsto> \<lparr>data = Some 20, immutable_borrows = 0, mutable_borrowed = False\<rparr>,
                   2 \<mapsto> \<lparr>data = None, immutable_borrows = 0, mutable_borrowed = False\<rparr>],
        borroweds = Map.empty, borrowedmuts = Map.empty, allocated = {20}\<rparr>"
    by (simp add: Unique_move_assign_def delete_def)
  from borrow_of_empty_owner [where c = 1 and a = 2 and h = 5
      and ?m0.0 = "\<lparr>uniques = [1 \<mapsto> \<lparr>data = Some 10, immutable_borrows = 0, mutable_borrowed = False\<rparr>,
                   2 \<mapsto> \<lparr>data = Some 20, immutable_borrows = 0, mutable_borrowed = False\<rparr>],
        borroweds = Map.empty, borrowedmuts = Map.empty, allocated = {10, 20}\<rparr>"
      and m = "\<lparr>uniques = [1 \<mapsto> \<lparr>data = Some 20, immutable_borrows = 0, mutable_borrowed = False\<rparr>,
                   2 \<mapsto> \<lparr>data = None, immutable_borrows = 0, mutable_borrowed = False\<rparr>],
        borroweds = Map.empty, borrowedmuts = Map.empty, allocated = {20}\<rparr>"]
    mv
  show ?thesis by simp
qed

subsection \<open>Move assignment of an exclusive handle\<close>

text \<open>
  C10. Take two distinct \<open>BorrowedMut\<close> handles, the target \<open>this\<close> at \<open>h\<close> and the
  source \<open>other\<close> at \<open>g\<close>.
  \<^item> When the target points to a live owner whose exclusive flag is set, the move
    assignment returns: it has cleared that flag, given the target the owner pointer and
    the resource pointer of the source, and set both pointers of the source to null.
  \<^item> When the target's owner pointer is null, nothing is released; the rest is the same.
  \<^item> After a move assignment that returned, the destructor of the source returns and
    changes no owner, and the destructor of the target clears the exclusive flag of the
    owner it took over from the source.
  \<^item> So each acquisition is released once: acquire the exclusive borrow of two distinct
    free owners through two handles, move-assign one handle to the other, destroy the
    source, destroy the target. Every call returns (a second release of a flag would
    throw inside a \<open>noexcept\<close> function), the first owner is free again after the
    assignment, the second after the destruction of the target, and both handles are gone.
\<close>

theorem BorrowedMut_move_assign_spec:
  "(h \<noteq> g \<and> borrowedmuts m h = Some this \<and> borrowedmuts m g = Some other
      \<and> bm_owner this = Some a \<and> uniques m a = Some ua \<and> mutable_borrowed ua \<longrightarrow>
        BorrowedMut_move_assign h g m = Returned ()
          (m\<lparr>uniques := (uniques m)(a \<mapsto> ua\<lparr>mutable_borrowed := False\<rparr>),
             borrowedmuts := (borrowedmuts m)
               (h \<mapsto> \<lparr>bm_owner = bm_owner other, bm_data = bm_data other\<rparr>,
                g \<mapsto> \<lparr>bm_owner = None, bm_data = None\<rparr>)\<rparr>))
   \<and> (h \<noteq> g \<and> borrowedmuts m h = Some this \<and> borrowedmuts m g = Some other
      \<and> bm_owner this = None \<longrightarrow>
        BorrowedMut_move_assign h g m = Returned ()
          (m\<lparr>borrowedmuts := (borrowedmuts m)
               (h \<mapsto> \<lparr>bm_owner = bm_owner other, bm_data = bm_data other\<rparr>,
                g \<mapsto> \<lparr>bm_owner = None, bm_data = None\<rparr>)\<rparr>))
   \<and> (h \<noteq> g \<and> borrowedmuts m g = Some other
      \<and> BorrowedMut_move_assign h g m = Returned () m' \<longrightarrow>
        borrowedmuts m' h = Some \<lparr>bm_owner = bm_owner other, bm_data = bm_data other\<rparr>
      \<and> borrowedmuts m' g = Some \<lparr>bm_owner = None, bm_data = None\<rparr>
      \<and> BorrowedMut_dtor g m' = Returned () (m'\<lparr>borrowedmuts := (borrowedmuts m')(g := None)\<rparr>)
      \<and> (\<forall>b ub. bm_owner other = Some b \<and> uniques m' b = Some ub \<and> mutable_borrowed ub \<longrightarrow>
            BorrowedMut_dtor h m' = Returned ()
              (m'\<lparr>uniques := (uniques m')(b \<mapsto> ub\<lparr>mutable_borrowed := False\<rparr>),
                  borrowedmuts := (borrowedmuts m')(h := None)\<rparr>)))
   \<and> (a \<noteq> b \<and> h \<noteq> g \<and> uniques m0 a = Some ua \<and> uniques m0 b = Some ub
      \<and> \<not> (immutable_borrows ua > 0 \<or> mutable_borrowed ua)
      \<and> \<not> (immutable_borrows ub > 0 \<or> mutable_borrowed ub)
      \<and> h \<notin> dom (borrowedmuts m0) \<and> g \<notin> dom (borrowedmuts m0) \<longrightarrow>
        (\<exists>m2 m3 m4 m5.
           bind_result (borrow_mut a h m0) (\<lambda>_. borrow_mut b g) = Returned () m2
         \<and> BorrowedMut_move_assign h g m2 = Returned () m3
         \<and> uniques m3 a = Some ua \<and> uniques m3 b = Some (ub\<lparr>mutable_borrowed := True\<rparr>)
         \<and> BorrowedMut_dtor g m3 = Returned () m4
         \<and> uniques m4 a = Some ua \<and> uniques m4 b = Some (ub\<lparr>mutable_borrowed := True\<rparr>)
         \<and> BorrowedMut_dtor h m4 = Returned () m5
         \<and> uniques m5 a = Some ua \<and> uniques m5 b = Some ub
         \<and> borrowedmuts m5 h = None \<and> borrowedmuts m5 g = None))"
proof -
  have assign: "(h \<noteq> g \<and> borrowedmuts m h = Some this \<and> borrowedmuts m g = Some other
      \<and> bm_owner this = Some a \<and> uniques m a = Some ua \<and> mutable_borrowed ua \<longrightarrow>
        BorrowedMut_move_assign h g m = Returned ()
          (m\<lparr>uniques := (uniques m)(a \<mapsto> ua\<lparr>mutable_borrowed := False\<rparr>),
             borrowedmuts := (borrowedmuts m)
               (h \<mapsto> \<lparr>bm_owner = bm_owner other, bm_data = bm_data other\<rparr>,
                g \<mapsto> \<lparr>bm_owner = None, bm_data = None\<rparr>)\<rparr>))
   \<and> (h \<noteq> g \<and> borrowedmuts m h = Some this \<and> borrowedmuts m g = Some other
      \<and> bm_owner this = None \<longrightarrow>
        BorrowedMut_move_assign h g m = Returned ()
          (m\<lparr>borrowedmuts := (borrowedmuts m)
               (h \<mapsto> \<lparr>bm_owner = bm_owner other, bm_data = bm_data other\<rparr>,
                g \<mapsto> \<lparr>bm_owner = None, bm_data = None\<rparr>)\<rparr>))
   \<and> (h \<noteq> g \<and> borrowedmuts m g = Some other
      \<and> BorrowedMut_move_assign h g m = Returned () m' \<longrightarrow>
        borrowedmuts m' h = Some \<lparr>bm_owner = bm_owner other, bm_data = bm_data other\<rparr>
      \<and> borrowedmuts m' g = Some \<lparr>bm_owner = None, bm_data = None\<rparr>
      \<and> BorrowedMut_dtor g m' = Returned () (m'\<lparr>borrowedmuts := (borrowedmuts m')(g := None)\<rparr>)
      \<and> (\<forall>b ub. bm_owner other = Some b \<and> uniques m' b = Some ub \<and> mutable_borrowed ub \<longrightarrow>
            BorrowedMut_dtor h m' = Returned ()
              (m'\<lparr>uniques := (uniques m')(b \<mapsto> ub\<lparr>mutable_borrowed := False\<rparr>),
                  borrowedmuts := (borrowedmuts m')(h := None)\<rparr>)))"
    by (intro conjI impI)
       (auto simp: BorrowedMut_move_assign_def BorrowedMut_dtor_def release_if_owner_def
          via_owner_def releaseMutableBorrow_def bind_result_def noexcept_def
          split: if_splits option.splits result.splits)
  have once: "a \<noteq> b \<and> h \<noteq> g \<and> uniques m0 a = Some ua \<and> uniques m0 b = Some ub
      \<and> \<not> (immutable_borrows ua > 0 \<or> mutable_borrowed ua)
      \<and> \<not> (immutable_borrows ub > 0 \<or> mutable_borrowed ub)
      \<and> h \<notin> dom (borrowedmuts m0) \<and> g \<notin> dom (borrowedmuts m0) \<longrightarrow>
        (\<exists>m2 m3 m4 m5.
           bind_result (borrow_mut a h m0) (\<lambda>_. borrow_mut b g) = Returned () m2
         \<and> BorrowedMut_move_assign h g m2 = Returned () m3
         \<and> uniques m3 a = Some ua \<and> uniques m3 b = Some (ub\<lparr>mutable_borrowed := True\<rparr>)
         \<and> BorrowedMut_dtor g m3 = Returned () m4
         \<and> uniques m4 a = Some ua \<and> uniques m4 b = Some (ub\<lparr>mutable_borrowed := True\<rparr>)
         \<and> BorrowedMut_dtor h m4 = Returned () m5
         \<and> uniques m5 a = Some ua \<and> uniques m5 b = Some ub
         \<and> borrowedmuts m5 h = None \<and> borrowedmuts m5 g = None)"
    by (auto simp: borrow_mut_def BorrowedMut_ctor_def acquireMutableBorrow_def
          BorrowedMut_move_assign_def BorrowedMut_dtor_def release_if_owner_def
          via_owner_def releaseMutableBorrow_def bind_result_def noexcept_def)
  from assign once show ?thesis by blast
qed

theorem BorrowedMut_move_assign_spec_witness:
  "BorrowedMut_move_assign 5 6
     \<lparr>uniques = [1 \<mapsto> \<lparr>data = Some 10, immutable_borrows = 0, mutable_borrowed = True\<rparr>,
                 2 \<mapsto> \<lparr>data = Some 20, immutable_borrows = 0, mutable_borrowed = True\<rparr>],
      borroweds = Map.empty,
      borrowedmuts = [5 \<mapsto> \<lparr>bm_owner = Some 1, bm_data = Some 10\<rparr>,
                      6 \<mapsto> \<lparr>bm_owner = Some 2, bm_data = Some 20\<rparr>],
      allocated = {10, 20}\<rparr>
   = Returned ()
     \<lparr>uniques = [2 \<mapsto> \<lparr>data = Some 20, immutable_borrows = 0, mutable_borrowed = True\<rparr>,
                 1 \<mapsto> \<lparr>data = Some 10, immutable_borrows = 0, mutable_borrowed = False\<rparr>],
      borroweds = Map.empty,
      borrowedmuts = [5 \<mapsto> \<lparr>bm_owner = Some 2, bm_data = Some 20\<rparr>,
                      6 \<mapsto> \<lparr>bm_owner = None, bm_data = None\<rparr>],
      allocated = {10, 20}\<rparr>
   \<and> BorrowedMut_dtor 6
     \<lparr>uniques = [2 \<mapsto> \<lparr>data = Some 20, immutable_borrows = 0, mutable_borrowed = True\<rparr>,
                 1 \<mapsto> \<lparr>data = Some 10, immutable_borrows = 0, mutable_borrowed = False\<rparr>],
      borroweds = Map.empty,
      borrowedmuts = [5 \<mapsto> \<lparr>bm_owner = Some 2, bm_data = Some 20\<rparr>,
                      6 \<mapsto> \<lparr>bm_owner = None, bm_data = None\<rparr>],
      allocated = {10, 20}\<rparr>
   = Returned ()
     \<lparr>uniques = [2 \<mapsto> \<lparr>data = Some 20, immutable_borrows = 0, mutable_borrowed = True\<rparr>,
                 1 \<mapsto> \<lparr>data = Some 10, immutable_borrows = 0, mutable_borrowed = False\<rparr>],
      borroweds = Map.empty,
      borrowedmuts = [5 \<mapsto> \<lparr>bm_owner = Some 2, bm_data = Some 20\<rparr>],
      allocated = {10, 20}\<rparr>"
proof -
  have del: "[(5::nat) \<mapsto> \<lparr>bm_owner = Some (2::nat), bm_data = Some (20::nat)\<rparr>](6 := None)
           = [5 \<mapsto> \<lparr>bm_owner = Some 2, bm_data = Some 20\<rparr>]"
    by (rule ext) simp
  have "BorrowedMut_move_assign 5 6
     \<lparr>uniques = [1 \<mapsto> \<lparr>data = Some 10, immutable_borrows = 0, mutable_borrowed = True\<rparr>,
                 2 \<mapsto> \<lparr>data = Some 20, immutable_borrows = 0, mutable_borrowed = True\<rparr>],
      borroweds = Map.empty,
      borrowedmuts = [5 \<mapsto> \<lparr>bm_owner = Some 1, bm_data = Some 10\<rparr>,
                      6 \<mapsto> \<lparr>bm_owner = Some 2, bm_data = Some 20\<rparr>],
      allocated = {10, 20}\<rparr>
   = Returned ()
     \<lparr>uniques = [2 \<mapsto> \<lparr>data = Some 20, immutable_borrows = 0, mutable_borrowed = True\<rparr>,
                 1 \<mapsto> \<lparr>data = Some 10, immutable_borrows = 0, mutable_borrowed = False\<rparr>],
      borroweds = Map.empty,
      borrowedmuts = [5 \<mapsto> \<lparr>bm_owner = Some 2, bm_data = Some 20\<rparr>,
                      6 \<mapsto> \<lparr>bm_owner = None, bm_data = None\<rparr>],
      allocated = {10, 20}\<rparr>" (is "?assign = Returned () ?m'")
    using BorrowedMut_move_assign_spec [where h = 5 and g = 6 and a = 1
      and m = "\<lparr>uniques = [1 \<mapsto> \<lparr>data = Some 10, immutable_borrows = 0, mutable_borrowed = True\<rparr>,
                 2 \<mapsto> \<lparr>data = Some 20, immutable_borrows = 0, mutable_borrowed = True\<rparr>],
      borroweds = Map.empty,
      borrowedmuts = [5 \<mapsto> \<lparr>bm_owner = Some 1, bm_data = Some 10\<rparr>,
                      6 \<mapsto> \<lparr>bm_owner = Some 2, bm_data = Some 20\<rparr>],
      allocated = {10, 20}\<rparr>"
      and this = "\<lparr>bm_owner = Some 1, bm_data = Some 10\<rparr>"
      and other = "\<lparr>bm_owner = Some 2, bm_data = Some 20\<rparr>"
      and ua = "\<lparr>data = Some 10, immutable_borrows = 0, mutable_borrowed = True\<rparr>"]
    by simp
  moreover from this have "BorrowedMut_dtor 6 ?m'
      = Returned () (?m'\<lparr>borrowedmuts := (borrowedmuts ?m')(6 := None)\<rparr>)"
    using BorrowedMut_move_assign_spec [where h = 5 and g = 6 and m' = ?m'
      and m = "\<lparr>uniques = [1 \<mapsto> \<lparr>data = Some 10, immutable_borrows = 0, mutable_borrowed = True\<rparr>,
                 2 \<mapsto> \<lparr>data = Some 20, immutable_borrows = 0, mutable_borrowed = True\<rparr>],
      borroweds = Map.empty,
      borrowedmuts = [5 \<mapsto> \<lparr>bm_owner = Some 1, bm_data = Some 10\<rparr>,
                      6 \<mapsto> \<lparr>bm_owner = Some 2, bm_data = Some 20\<rparr>],
      allocated = {10, 20}\<rparr>"
      and other = "\<lparr>bm_owner = Some 2, bm_data = Some 20\<rparr>"]
    by simp
  ultimately show ?thesis using del by simp
qed

end
